theory Spec2Isabelle
  imports Complex_Main "HOL-Library.Monad_Syntax"
begin

section \<open>JavaScript values read by the factories\<close>

text \<open>
  The factories of \<^verbatim>\<open>src/openapi/helpers/types.ts\<close> perform no arithmetic: they test a
  configuration field for truthiness or with \<^verbatim>\<open>typeof\<close> and hand it to the schema builder.
  A JavaScript number is therefore a real value or one of the three special values; every
  double is covered, and nothing here depends on rounding.
\<close>

datatype number = Finite real | NaN | PosInfinity | NegInfinity

datatype jsvalue =
    JSUndefined
  | JSNull
  | JSBoolean bool
  | JSNumber number
  | JSString string
  | JSArray "jsvalue list"
  | JSObject "(string \<times> jsvalue) list"

text \<open>Truthiness (\<^verbatim>\<open>if (x)\<close>): \<^verbatim>\<open>undefined\<close>, \<^verbatim>\<open>null\<close>, \<^verbatim>\<open>false\<close>, \<^verbatim>\<open>0\<close>, \<^verbatim>\<open>NaN\<close> and
  the empty string are falsy, every other value is truthy.\<close>

fun truthy :: "jsvalue \<Rightarrow> bool" where
  "truthy JSUndefined = False"
| "truthy JSNull = False"
| "truthy (JSBoolean b) = b"
| "truthy (JSNumber (Finite r)) = (r \<noteq> 0)"
| "truthy (JSNumber NaN) = False"
| "truthy (JSNumber PosInfinity) = True"
| "truthy (JSNumber NegInfinity) = True"
| "truthy (JSString s) = (s \<noteq> [])"
| "truthy (JSArray xs) = True"
| "truthy (JSObject kvs) = True"

text \<open>The \<^verbatim>\<open>typeof\<close> operator.\<close>

fun typeof :: "jsvalue \<Rightarrow> string" where
  "typeof JSUndefined = ''undefined''"
| "typeof JSNull = ''object''"
| "typeof (JSBoolean b) = ''boolean''"
| "typeof (JSNumber n) = ''number''"
| "typeof (JSString s) = ''string''"
| "typeof (JSArray xs) = ''object''"
| "typeof (JSObject kvs) = ''object''"

section \<open>The configuration records\<close>

text \<open>
  One record carries the fields of every parameter type of the source (\<^verbatim>\<open>Common\<close>,
  \<^verbatim>\<open>StringParameters\<close>, \<^verbatim>\<open>IntegerParameters\<close>, \<^verbatim>\<open>ObjectParameters\<close>, ...): a factory that
  passes its configuration on to \<^verbatim>\<open>Types.String\<close> or \<^verbatim>\<open>Types.Number\<close> passes the same object,
  and the callee reads its own fields from it. An optional field that is absent
  (\<^verbatim>\<open>undefined\<close>) is \<open>None\<close>. Fields declared with one type everywhere carry that type;
  \<^verbatim>\<open>default\<close> and \<^verbatim>\<open>example\<close> are declared as string, number, boolean or object depending
  on the shape, and the entries of \<^verbatim>\<open>values\<close> as \<^verbatim>\<open>any\<close>, so they are JavaScript values.
  The values of the property map of an object and the element type of an array are
  schema-like values supplied by the caller; the factories hand them to the builder without
  looking inside. The builder compiles such a value to a schema or refuses it, so a
  schema-like value is either \<open>Compiles s\<close>, a value the builder compiles (a schema built
  by a factory, a literal, a nested map of such values), whose type \<open>'s\<close> is left open, or
  \<open>Refused\<close>, a value the builder refuses to compile, such as \<^verbatim>\<open>undefined\<close> as the value
  of a property.
\<close>

datatype 's schemalike = Compiles 's | Refused

record 's parameters =
  description :: "string option"
  required :: "bool option"
  nullable :: "bool option"
  default :: "jsvalue option"
  example :: "jsvalue option"
  minLength :: "number option"
  maxLength :: "number option"
  minValue :: "number option"
  maxValue :: "number option"
  "values" :: "jsvalue list option"
  properties :: "(string \<times> 's schemalike) list option"
  arrayType :: "'s schemalike option"

section \<open>The schema builder\<close>

text \<open>
  Modelled from the spec: the schema-builder API that the factories consume (spec section 6,
  "base constructors per primitive kind; chainable configuration methods for description,
  requiredness, null-acceptance, default, example, min/max bounds, allowed-value
  restriction, format validators, encoding, and arbitrary metadata tagging") and the Schema
  Node it produces (spec section 3). It is the joi package, pinned to 17.3.0 in
  \<^verbatim>\<open>package.json\<close>; its code is not part of this repository. A node is immutable: every
  method returns a new node. A method whose argument the builder rejects throws (spec
  section 7: errors are "thrown/raised ... from the underlying validator construction API
  when it rejects the malformed configuration"), which is the result \<open>None\<close>. The spec
  does not say which arguments a method rejects; those checks follow the documented
  behaviour of joi 17.3.0 and are named where they are modelled.
\<close>

datatype kind = KString | KBinary | KNumber | KBoolean | KObject | KArray

datatype presence = Required | Optional

datatype rule =
    Rule_min number
  | Rule_max number
  | Rule_email
  | Rule_guid string
  | Rule_uri
  | Rule_hostname
  | Rule_ip "string list"
  | Rule_isoDate
  | Rule_integer

fun rule_name :: "rule \<Rightarrow> string" where
  "rule_name (Rule_min l) = ''min''"
| "rule_name (Rule_max l) = ''max''"
| "rule_name Rule_email = ''email''"
| "rule_name (Rule_guid v) = ''guid''"
| "rule_name Rule_uri = ''uri''"
| "rule_name Rule_hostname = ''hostname''"
| "rule_name (Rule_ip vs) = ''ip''"
| "rule_name Rule_isoDate = ''isoDate''"
| "rule_name Rule_integer = ''integer''"

record 's node =
  kind :: kind
  flag_description :: "string option"
  flag_presence :: "presence option"
  flag_default :: "jsvalue option"
  flag_only :: bool
  flag_encoding :: "string option"
  strict :: bool
  valids :: "jsvalue list"
  rules :: "rule list"
  metas :: "(string \<times> string) list"
  examples :: "jsvalue list"
  keys :: "(string \<times> 's) list option"
  items :: "'s list"

text \<open>Modelled from the spec: the base constructors \<^verbatim>\<open>Joi.string()\<close>, \<^verbatim>\<open>Joi.binary()\<close>,
  \<^verbatim>\<open>Joi.number()\<close>, \<^verbatim>\<open>Joi.boolean()\<close>, \<^verbatim>\<open>Joi.object()\<close> and \<^verbatim>\<open>Joi.array()\<close>: a bare,
  unconstrained node of the base kind.\<close>

definition Joi_any :: "kind \<Rightarrow> 's node" where
  "Joi_any k =
     \<lparr> kind = k, flag_description = None, flag_presence = None, flag_default = None,
       flag_only = False, flag_encoding = None, strict = False, valids = [], rules = [],
       metas = [], examples = [], keys = None, items = [] \<rparr>"

definition Joi_string :: "'s node" where "Joi_string = Joi_any KString"
definition Joi_binary :: "'s node" where "Joi_binary = Joi_any KBinary"
definition Joi_number :: "'s node" where "Joi_number = Joi_any KNumber"
definition Joi_boolean :: "'s node" where "Joi_boolean = Joi_any KBoolean"
definition Joi_object :: "'s node" where "Joi_object = Joi_any KObject"
definition Joi_array :: "'s node" where "Joi_array = Joi_any KArray"

text \<open>Modelled from the spec: a rule is kept once per name, so a later \<^verbatim>\<open>min\<close> or \<^verbatim>\<open>max\<close>
  replaces an earlier one (spec section 4.1, Uuid: "forces fixed length bounds 36..36
  (overrides any caller-supplied length)").\<close>

definition addRule :: "rule \<Rightarrow> 's node \<Rightarrow> 's node" where
  "addRule r j = j\<lparr>rules := filter (\<lambda>r'. rule_name r' \<noteq> rule_name r) (rules j) @ [r]\<rparr>"

text \<open>Modelled from the spec: the bounds (spec section 4.1, "set lower/upper constraints
  on the node") and the argument check of \<^verbatim>\<open>min\<close> and \<^verbatim>\<open>max\<close>, which the spec leaves to
  the builder. In joi 17.3.0 the limit of a text, binary or array schema must be a
  non-negative safe integer ("limit must be a positive integer or reference"), and the limit
  of a number schema must be a number, which \<^verbatim>\<open>NaN\<close> is not ("limit must be a number or
  reference"). The method is dispatched on the kind of the node it is called on.\<close>

fun isSafeInteger :: "number \<Rightarrow> bool" where
  "isSafeInteger (Finite r) = (of_int \<lfloor>r\<rfloor> = r \<and> \<bar>r\<bar> \<le> 9007199254740991)"
| "isSafeInteger NaN = False"
| "isSafeInteger PosInfinity = False"
| "isSafeInteger NegInfinity = False"

fun nonNegative :: "number \<Rightarrow> bool" where
  "nonNegative (Finite r) = (0 \<le> r)"
| "nonNegative NaN = False"
| "nonNegative PosInfinity = True"
| "nonNegative NegInfinity = False"

definition limit :: "number \<Rightarrow> bool" where
  "limit l = (isSafeInteger l \<and> nonNegative l)"

definition isNumber :: "number \<Rightarrow> bool" where
  "isNumber l = (l \<noteq> NaN)"

definition accepts_bound :: "kind \<Rightarrow> number \<Rightarrow> bool" where
  "accepts_bound k l = (if k = KNumber then isNumber l else limit l)"

definition joi_min :: "number \<Rightarrow> 's node \<Rightarrow> 's node option" where
  "joi_min l j = (if accepts_bound (kind j) l then Some (addRule (Rule_min l) j) else None)"

definition joi_max :: "number \<Rightarrow> 's node \<Rightarrow> 's node option" where
  "joi_max l j = (if accepts_bound (kind j) l then Some (addRule (Rule_max l) j) else None)"

text \<open>Modelled from the spec: description, requiredness, default, example, metadata.
  \<^verbatim>\<open>description\<close> takes a non-empty string, \<^verbatim>\<open>default\<close> and \<^verbatim>\<open>example\<close> any value but
  \<^verbatim>\<open>undefined\<close>; examples and metadata entries accumulate.\<close>

definition joi_description :: "string \<Rightarrow> 's node \<Rightarrow> 's node option" where
  "joi_description desc j = (if desc \<noteq> [] then Some (j\<lparr>flag_description := Some desc\<rparr>) else None)"

definition joi_required :: "'s node \<Rightarrow> 's node option" where
  "joi_required j = Some (j\<lparr>flag_presence := Some Required\<rparr>)"

definition joi_optional :: "'s node \<Rightarrow> 's node option" where
  "joi_optional j = Some (j\<lparr>flag_presence := Some Optional\<rparr>)"

definition joi_default :: "jsvalue \<Rightarrow> 's node \<Rightarrow> 's node option" where
  "joi_default v j = (if v = JSUndefined then None else Some (j\<lparr>flag_default := Some v\<rparr>))"

definition joi_example :: "jsvalue \<Rightarrow> 's node \<Rightarrow> 's node option" where
  "joi_example v j = (if v = JSUndefined then None else Some (j\<lparr>examples := examples j @ [v]\<rparr>))"

definition joi_meta :: "string \<times> string \<Rightarrow> 's node \<Rightarrow> 's node option" where
  "joi_meta m j = Some (j\<lparr>metas := metas j @ [m]\<rparr>)"

text \<open>Modelled from the spec: the allowed values. \<^verbatim>\<open>allow\<close> adds values to the set of
  values the node accepts (each value once, in the order given); \<^verbatim>\<open>valid\<close> does the same
  and restricts the node to that set. Neither takes \<^verbatim>\<open>undefined\<close> or an array as a
  value. A value is in the set already when the set holds the same primitive value or a
  deeply equal object: two objects are deeply equal when they have the same keys, in
  whatever order, with deeply equal values, two arrays when they have deeply equal elements
  in the same order. An object is taken to list each of its keys once.\<close>

fun is_array :: "jsvalue \<Rightarrow> bool" where
  "is_array (JSArray xs) = True"
| "is_array v = False"

fun deepEqual :: "jsvalue \<Rightarrow> jsvalue \<Rightarrow> bool"
  and deepEqual_elements :: "jsvalue list \<Rightarrow> jsvalue list \<Rightarrow> bool"
  and deepEqual_fields :: "(string \<times> jsvalue) list \<Rightarrow> (string \<times> jsvalue) list \<Rightarrow> bool"
  where
  "deepEqual (JSArray xs) b = (case b of JSArray ys \<Rightarrow> deepEqual_elements xs ys | _ \<Rightarrow> False)"
| "deepEqual (JSObject fs) b =
     (case b of JSObject gs \<Rightarrow> length fs = length gs \<and> deepEqual_fields fs gs | _ \<Rightarrow> False)"
| "deepEqual a b = (a = b)"
| "deepEqual_elements [] ys = (ys = [])"
| "deepEqual_elements (x # xs) ys =
     (case ys of [] \<Rightarrow> False | y # ys' \<Rightarrow> deepEqual x y \<and> deepEqual_elements xs ys')"
| "deepEqual_fields [] gs = True"
| "deepEqual_fields ((k, v) # fs) gs =
     ((case map_of gs k of None \<Rightarrow> False | Some w \<Rightarrow> deepEqual v w) \<and> deepEqual_fields fs gs)"

fun add_values :: "jsvalue list \<Rightarrow> jsvalue list \<Rightarrow> jsvalue list" where
  "add_values acc [] = acc"
| "add_values acc (v # vs) =
     add_values (if list_ex (\<lambda>item. deepEqual item v) acc then acc else acc @ [v]) vs"

definition flat_defined :: "jsvalue list \<Rightarrow> bool" where
  "flat_defined vs = list_all (\<lambda>v. \<not> is_array v \<and> v \<noteq> JSUndefined) vs"

definition joi_allow :: "jsvalue list \<Rightarrow> 's node \<Rightarrow> 's node option" where
  "joi_allow vs j = (if flat_defined vs then Some (j\<lparr>valids := add_values (valids j) vs\<rparr>) else None)"

definition joi_valid :: "jsvalue list \<Rightarrow> 's node \<Rightarrow> 's node option" where
  "joi_valid vs j = joi_allow vs j \<bind> (\<lambda>obj. Some (obj\<lparr>flag_only := (valids obj \<noteq> [])\<rparr>))"

text \<open>Modelled from the spec: the format validators, the integer restriction, the
  encoding and strict type-checking.\<close>

definition joi_email :: "'s node \<Rightarrow> 's node option" where
  "joi_email j = Some (addRule Rule_email j)"

definition joi_uuid :: "string \<Rightarrow> 's node \<Rightarrow> 's node option" where
  "joi_uuid version j = Some (addRule (Rule_guid version) j)"

definition joi_uri :: "'s node \<Rightarrow> 's node option" where
  "joi_uri j = Some (addRule Rule_uri j)"

definition joi_hostname :: "'s node \<Rightarrow> 's node option" where
  "joi_hostname j = Some (addRule Rule_hostname j)"

definition joi_ip :: "string list \<Rightarrow> 's node \<Rightarrow> 's node option" where
  "joi_ip version j = Some (addRule (Rule_ip version) j)"

definition joi_isoDate :: "'s node \<Rightarrow> 's node option" where
  "joi_isoDate j = Some (addRule Rule_isoDate j)"

definition joi_integer :: "'s node \<Rightarrow> 's node option" where
  "joi_integer j = Some (addRule Rule_integer j)"

definition joi_encoding :: "string \<Rightarrow> 's node \<Rightarrow> 's node option" where
  "joi_encoding enc j = Some (j\<lparr>flag_encoding := Some enc\<rparr>)"

definition joi_strict :: "'s node \<Rightarrow> 's node option" where
  "joi_strict j = Some (j\<lparr>strict := True\<rparr>)"

text \<open>Modelled from the spec: the property map of an object and the element type of an
  array. The builder compiles every property value and the element type to a schema, and
  throws when it refuses one ("Invalid undefined schema"). \<^verbatim>\<open>items\<close> therefore rejects an
  absent (\<^verbatim>\<open>undefined\<close>) element type, as spec section 4.1 says of Array. For \<^verbatim>\<open>keys\<close> the
  model departs from the sentence of spec section 4.1 that has Object fail without
  \<^verbatim>\<open>properties\<close>: joi 17.3.0 documents the argument of \<^verbatim>\<open>object.keys([schema])\<close> as
  optional ("If schema is null or undefined, any key allowed"; an empty map allows no key;
  otherwise the given keys are compiled and added, a key given again replacing the earlier
  one). Claim C5 depends on this point.\<close>

fun joi_compile :: "'s schemalike \<Rightarrow> 's option" where
  "joi_compile (Compiles s) = Some s"
| "joi_compile Refused = None"

fun compile_keys :: "(string \<times> 's schemalike) list \<Rightarrow> (string \<times> 's) list option" where
  "compile_keys [] = Some []"
| "compile_keys ((key, schema) # kvs) =
     (case joi_compile schema of
        None \<Rightarrow> None
      | Some child \<Rightarrow> map_option (\<lambda>children. (key, child) # children) (compile_keys kvs))"

definition joi_keys :: "(string \<times> 's schemalike) list option \<Rightarrow> 's node \<Rightarrow> 's node option" where
  "joi_keys schema j =
     (case schema of
        None \<Rightarrow> Some (j\<lparr>keys := None\<rparr>)
      | Some [] \<Rightarrow> Some (j\<lparr>keys := Some []\<rparr>)
      | Some (kv # kvs) \<Rightarrow>
          map_option
            (\<lambda>children.
               j\<lparr>keys := Some (filter (\<lambda>child. fst child \<notin> fst ` set (kv # kvs))
                                   (case keys j of None \<Rightarrow> [] | Some old \<Rightarrow> old) @ children)\<rparr>)
            (compile_keys (kv # kvs)))"

definition joi_items :: "'s schemalike option \<Rightarrow> 's node \<Rightarrow> 's node option" where
  "joi_items schema j =
     (case schema of
        None \<Rightarrow> None
      | Some t \<Rightarrow> map_option (\<lambda>child. j\<lparr>items := items j @ [child]\<rparr>) (joi_compile t))"

section \<open>The factories\<close>

text \<open>
  Every optional step of a factory has the form
  \<^verbatim>\<open>if (test(field)) { joiType = joiType.method(field); }\<close>.
  No test of the source holds of \<^verbatim>\<open>undefined\<close> (it is falsy, and its \<^verbatim>\<open>typeof\<close> is neither
  \<^verbatim>\<open>"boolean"\<close> nor \<^verbatim>\<open>"number"\<close>), so an absent field skips the step.
\<close>

definition guarded ::
  "('v \<Rightarrow> bool) \<Rightarrow> 'v option \<Rightarrow> ('v \<Rightarrow> 'n \<Rightarrow> 'n option) \<Rightarrow> 'n \<Rightarrow> 'n option" where
  "guarded test field method joiType =
     (case field of
        None \<Rightarrow> Some joiType
      | Some v \<Rightarrow> if test v then method v joiType else Some joiType)"

text \<open>\<^verbatim>\<open>Types.String\<close> (lines 78-121).\<close>

definition Types_String :: "'s parameters option \<Rightarrow> 's node option" where
  "Types_String parameters =
     (case parameters of
        None \<Rightarrow> Some Joi_string
      | Some p \<Rightarrow>
          Some Joi_string
          \<bind> guarded (\<lambda>d. truthy (JSString d)) (description p) joi_description
          \<bind> guarded (\<lambda>r. typeof (JSBoolean r) = ''boolean'') (required p)
                (\<lambda>r joiType. if r then joi_required joiType else joi_optional joiType)
          \<bind> guarded (\<lambda>n. typeof (JSBoolean n) = ''boolean'' \<and> n) (nullable p)
                (\<lambda>n. joi_allow [JSNull])
          \<bind> guarded (\<lambda>l. truthy (JSNumber l)) (minLength p) joi_min
          \<bind> guarded (\<lambda>l. truthy (JSNumber l)) (maxLength p) joi_max
          \<bind> guarded truthy (default p) joi_default
          \<bind> guarded truthy (example p) joi_example)"

text \<open>\<^verbatim>\<open>Types.StringEnum\<close> (lines 123-125). Its configuration is mandatory:
  \<^verbatim>\<open>parameters.values\<close> throws a TypeError when \<^verbatim>\<open>parameters\<close> is \<^verbatim>\<open>undefined\<close>, and so
  does spreading \<^verbatim>\<open>...parameters.values\<close> when \<^verbatim>\<open>values\<close> is \<^verbatim>\<open>undefined\<close> (it is not
  iterable). \<^verbatim>\<open>Types.String(parameters)\<close> is evaluated first, so its error comes
  first.\<close>

definition spread_values :: "'s parameters option \<Rightarrow> jsvalue list option" where
  "spread_values parameters = (case parameters of None \<Rightarrow> None | Some p \<Rightarrow> values p)"

definition Types_StringEnum :: "'s parameters option \<Rightarrow> 's node option" where
  "Types_StringEnum parameters =
     Types_String parameters
     \<bind> (\<lambda>joiType. spread_values parameters \<bind> (\<lambda>vs. joi_valid vs joiType))"

text \<open>\<^verbatim>\<open>Types.Email\<close>, \<^verbatim>\<open>Types.Password\<close>, \<^verbatim>\<open>Types.Uuid\<close>, \<^verbatim>\<open>Types.Uri\<close>,
  \<^verbatim>\<open>Types.Hostname\<close>, \<^verbatim>\<open>Types.Ipv4\<close>, \<^verbatim>\<open>Types.Ipv6\<close> (lines 127-169).\<close>

definition Types_Email :: "'s parameters option \<Rightarrow> 's node option" where
  "Types_Email parameters = Types_String parameters \<bind> joi_email"

definition Types_Password :: "'s parameters option \<Rightarrow> 's node option" where
  "Types_Password parameters = Types_String parameters \<bind> joi_meta (''format'', ''password'')"

definition Types_Uuid :: "'s parameters option \<Rightarrow> 's node option" where
  "Types_Uuid parameters =
     Types_String parameters
     \<bind> joi_uuid ''uuidv4''
     \<bind> joi_meta (''format'', ''uuid'')
     \<bind> joi_min (Finite 36)
     \<bind> joi_max (Finite 36)"

definition Types_Uri :: "'s parameters option \<Rightarrow> 's node option" where
  "Types_Uri parameters =
     Types_String parameters \<bind> joi_uri \<bind> joi_meta (''format'', ''uri'')"

definition Types_Hostname :: "'s parameters option \<Rightarrow> 's node option" where
  "Types_Hostname parameters =
     Types_String parameters \<bind> joi_hostname \<bind> joi_meta (''format'', ''hostname'')"

definition Types_Ipv4 :: "'s parameters option \<Rightarrow> 's node option" where
  "Types_Ipv4 parameters =
     Types_String parameters
     \<bind> joi_ip [''ipv4'']
     \<bind> joi_meta (''format'', ''ipv4'')
     \<bind> joi_min (Finite 7)
     \<bind> joi_max (Finite 15)"

definition Types_Ipv6 :: "'s parameters option \<Rightarrow> 's node option" where
  "Types_Ipv6 parameters =
     Types_String parameters
     \<bind> joi_ip [''ipv6'']
     \<bind> joi_meta (''format'', ''ipv6'')
     \<bind> joi_min (Finite 3)
     \<bind> joi_max (Finite 45)"

text \<open>\<^verbatim>\<open>Types.Binary\<close> and \<^verbatim>\<open>Types.Byte\<close> (lines 171-218).\<close>

definition Types_Binary :: "'s parameters option \<Rightarrow> 's node option" where
  "Types_Binary parameters =
     (case parameters of
        None \<Rightarrow> Some Joi_binary
      | Some p \<Rightarrow>
          Some Joi_binary
          \<bind> guarded (\<lambda>d. truthy (JSString d)) (description p) joi_description
          \<bind> guarded (\<lambda>r. typeof (JSBoolean r) = ''boolean'') (required p)
                (\<lambda>r joiType. if r then joi_required joiType else joi_optional joiType)
          \<bind> guarded (\<lambda>n. typeof (JSBoolean n) = ''boolean'' \<and> n) (nullable p)
                (\<lambda>n. joi_allow [JSNull])
          \<bind> guarded (\<lambda>l. truthy (JSNumber l)) (minLength p) joi_min
          \<bind> guarded (\<lambda>l. truthy (JSNumber l)) (maxLength p) joi_max
          \<bind> guarded truthy (default p) joi_default
          \<bind> guarded truthy (example p) joi_example)"

definition Types_Byte :: "'s parameters option \<Rightarrow> 's node option" where
  "Types_Byte parameters = Types_Binary parameters \<bind> joi_encoding ''base64''"

text \<open>\<^verbatim>\<open>Types.DateTime\<close> and \<^verbatim>\<open>Types.Date\<close> (lines 220-249).\<close>

definition Types_DateTime :: "'s parameters option \<Rightarrow> 's node option" where
  "Types_DateTime parameters =
     Some Joi_string \<bind> joi_isoDate \<bind> joi_max (Finite 24)
     \<bind> (\<lambda>joiType.
          case parameters of
            None \<Rightarrow> Some joiType
          | Some p \<Rightarrow>
              Some joiType
              \<bind> guarded (\<lambda>d. truthy (JSString d)) (description p) joi_description
              \<bind> guarded (\<lambda>r. typeof (JSBoolean r) = ''boolean'') (required p)
                    (\<lambda>r joiType. if r then joi_required joiType else joi_optional joiType)
              \<bind> guarded (\<lambda>n. typeof (JSBoolean n) = ''boolean'' \<and> n) (nullable p)
                    (\<lambda>n. joi_allow [JSNull]))"

definition Types_Date :: "'s parameters option \<Rightarrow> 's node option" where
  "Types_Date parameters =
     Types_DateTime parameters
     \<bind> joi_meta (''format'', ''date'')
     \<bind> joi_min (Finite 10)
     \<bind> joi_max (Finite 10)"

text \<open>\<^verbatim>\<open>Types.Number\<close>, \<^verbatim>\<open>Types.NumberEnum\<close>, \<^verbatim>\<open>Types.Integer\<close>, \<^verbatim>\<open>Types.IntegerEnum\<close>
  (lines 251-306).\<close>

definition Types_Number :: "'s parameters option \<Rightarrow> 's node option" where
  "Types_Number parameters =
     (case parameters of
        None \<Rightarrow> Some Joi_number
      | Some p \<Rightarrow>
          Some Joi_number
          \<bind> guarded (\<lambda>d. truthy (JSString d)) (description p) joi_description
          \<bind> guarded (\<lambda>r. typeof (JSBoolean r) = ''boolean'' \<and> r) (required p)
                (\<lambda>r. joi_required)
          \<bind> guarded (\<lambda>n. typeof (JSBoolean n) = ''boolean'' \<and> n) (nullable p)
                (\<lambda>n. joi_allow [JSNull])
          \<bind> guarded (\<lambda>l. typeof (JSNumber l) = ''number'') (minValue p) joi_min
          \<bind> guarded (\<lambda>l. typeof (JSNumber l) = ''number'') (maxValue p) joi_max
          \<bind> guarded (\<lambda>v. typeof v = ''number'') (default p) joi_default
          \<bind> guarded (\<lambda>v. typeof v = ''number'') (example p) joi_example)"

definition Types_NumberEnum :: "'s parameters option \<Rightarrow> 's node option" where
  "Types_NumberEnum parameters =
     Types_Number parameters
     \<bind> (\<lambda>joiType. spread_values parameters \<bind> (\<lambda>vs. joi_valid vs joiType))"

definition Types_Integer :: "'s parameters option \<Rightarrow> 's node option" where
  "Types_Integer parameters = Types_Number parameters \<bind> joi_integer"

definition Types_IntegerEnum :: "'s parameters option \<Rightarrow> 's node option" where
  "Types_IntegerEnum parameters =
     Types_Integer parameters
     \<bind> (\<lambda>joiType. spread_values parameters \<bind> (\<lambda>vs. joi_valid vs joiType))"

text \<open>\<^verbatim>\<open>Types.Boolean\<close> (lines 308-336).\<close>

definition Types_Boolean :: "'s parameters option \<Rightarrow> 's node option" where
  "Types_Boolean parameters =
     Some Joi_boolean \<bind> joi_strict
     \<bind> (\<lambda>joiType.
          case parameters of
            None \<Rightarrow> Some joiType
          | Some p \<Rightarrow>
              Some joiType
              \<bind> guarded (\<lambda>d. truthy (JSString d)) (description p) joi_description
              \<bind> guarded (\<lambda>r. typeof (JSBoolean r) = ''boolean'') (required p)
                    (\<lambda>r joiType. if r then joi_required joiType else joi_optional joiType)
              \<bind> guarded (\<lambda>n. typeof (JSBoolean n) = ''boolean'' \<and> n) (nullable p)
                    (\<lambda>n. joi_allow [JSNull])
              \<bind> guarded (\<lambda>v. typeof v = ''boolean'') (default p) joi_default
              \<bind> guarded (\<lambda>v. typeof v = ''boolean'') (example p) joi_example)"

text \<open>\<^verbatim>\<open>Types.Object\<close> and \<^verbatim>\<open>Types.Array\<close> (lines 338-406). The configuration is
  mandatory: destructuring \<^verbatim>\<open>undefined\<close> throws a TypeError.\<close>

definition Types_Object :: "'s parameters option \<Rightarrow> 's node option" where
  "Types_Object parameters =
     (case parameters of
        None \<Rightarrow> None
      | Some p \<Rightarrow>
          Some Joi_object \<bind> joi_keys (properties p)
          \<bind> guarded (\<lambda>d. truthy (JSString d)) (description p) joi_description
          \<bind> guarded (\<lambda>r. typeof (JSBoolean r) = ''boolean'') (required p)
                (\<lambda>r joiType. if r then joi_required joiType else joi_optional joiType)
          \<bind> guarded (\<lambda>n. truthy (JSBoolean n)) (nullable p) (\<lambda>n. joi_allow [JSNull])
          \<bind> guarded truthy (default p) joi_default
          \<bind> guarded truthy (example p) joi_example)"

definition Types_Array :: "'s parameters option \<Rightarrow> 's node option" where
  "Types_Array parameters =
     (case parameters of
        None \<Rightarrow> None
      | Some p \<Rightarrow>
          Some Joi_array \<bind> joi_items (arrayType p)
          \<bind> guarded (\<lambda>d. truthy (JSString d)) (description p) joi_description
          \<bind> guarded (\<lambda>r. typeof (JSBoolean r) = ''boolean'') (required p)
                (\<lambda>r joiType. if r then joi_required joiType else joi_optional joiType)
          \<bind> guarded (\<lambda>n. truthy (JSBoolean n)) (nullable p) (\<lambda>n. joi_allow [JSNull])
          \<bind> guarded truthy (default p) joi_default
          \<bind> guarded truthy (example p) joi_example
          \<bind> guarded (\<lambda>l. truthy (JSNumber l)) (minLength p) joi_min
          \<bind> guarded (\<lambda>l. truthy (JSNumber l)) (maxLength p) joi_max)"

section \<open>Vocabulary for the properties\<close>

text \<open>
  What a guarded step contributes: the value of the field when the field is present and
  passes the test of the step, nothing otherwise.
\<close>

definition applied :: "('v \<Rightarrow> bool) \<Rightarrow> 'v option \<Rightarrow> 'v option" where
  "applied test field = (case field of None \<Rightarrow> None | Some v \<Rightarrow> if test v then Some v else None)"

fun list_of :: "'a option \<Rightarrow> 'a list" where
  "list_of None = []"
| "list_of (Some x) = [x]"

definition override :: "'a option \<Rightarrow> 'a option \<Rightarrow> 'a option" where
  "override new old = (case new of None \<Rightarrow> old | Some v \<Rightarrow> Some v)"

definition replace_rule :: "rule option \<Rightarrow> rule list \<Rightarrow> rule list" where
  "replace_rule new old =
     (case new of None \<Rightarrow> old
      | Some r \<Rightarrow> filter (\<lambda>r'. rule_name r' \<noteq> rule_name r) old @ [r])"

definition null_if :: "bool option \<Rightarrow> jsvalue list" where
  "null_if field = (if field = Some True then [JSNull] else [])"

definition rejected :: "kind \<Rightarrow> (number \<Rightarrow> bool) \<Rightarrow> number option \<Rightarrow> bool" where
  "rejected k test field =
     (case applied test field of None \<Rightarrow> False | Some l \<Rightarrow> \<not> accepts_bound k l)"

text \<open>The length or value bounds a node carries, read off its rules.\<close>

fun min_limit :: "rule \<Rightarrow> number option" where
  "min_limit (Rule_min l) = Some l"
| "min_limit r = None"

fun max_limit :: "rule \<Rightarrow> number option" where
  "max_limit (Rule_max l) = Some l"
| "max_limit r = None"

definition min_limits :: "'s node \<Rightarrow> number list" where
  "min_limits n = List.map_filter min_limit (rules n)"

definition max_limits :: "'s node \<Rightarrow> number list" where
  "max_limits n = List.map_filter max_limit (rules n)"

text \<open>The restriction of a node to a list of allowed values, and an enumeration factory
  in terms of the factory it is built on.\<close>

definition restricted :: "jsvalue list \<Rightarrow> 's node \<Rightarrow> 's node" where
  "restricted vs j =
     j\<lparr>valids := add_values (valids j) vs, flag_only := (add_values (valids j) vs \<noteq> [])\<rparr>"

definition enum_of ::
  "'s parameters option \<Rightarrow> 's node option \<Rightarrow> 's node option" where
  "enum_of ps base =
     (case spread_values ps of
        None \<Rightarrow> None
      | Some vs \<Rightarrow> if flat_defined vs then map_option (restricted vs) base else None)"

text \<open>The configuration with no field set (\<^verbatim>\<open>{}\<close>).\<close>

definition empty_config :: "'s parameters" where
  "empty_config =
     \<lparr> description = None, required = None, nullable = None, default = None, example = None,
       minLength = None, maxLength = None, minValue = None, maxValue = None, values = None,
       properties = None, arrayType = None \<rparr>"








text \<open>A bound that a step hands to the builder and the builder rejects: a truthy length
  that is not a non-negative safe integer, a numeric bound that is \<^verbatim>\<open>NaN\<close>.\<close>

definition length_rejected :: "number option \<Rightarrow> bool" where
  "length_rejected field =
     (case field of None \<Rightarrow> False | Some l \<Rightarrow> truthy (JSNumber l) \<and> \<not> limit l)"

definition value_rejected :: "number option \<Rightarrow> bool" where
  "value_rejected field = (field = Some NaN)"

definition lengths_accepted :: "'s parameters option \<Rightarrow> bool" where
  "lengths_accepted ps =
     (case ps of
        None \<Rightarrow> True
      | Some p \<Rightarrow> \<not> length_rejected (minLength p) \<and> \<not> length_rejected (maxLength p))"

text \<open>When a configuration gets past the argument checks of the builder: its numeric
  bounds, the values of an enumeration (which must be there to be spread), the property
  values of an object (when there is a property map, each must compile), the element type of
  an array (which must be there and compile).\<close>

definition bounds_accepted :: "'s parameters option \<Rightarrow> bool" where
  "bounds_accepted ps =
     (case ps of
        None \<Rightarrow> True
      | Some p \<Rightarrow> \<not> value_rejected (minValue p) \<and> \<not> value_rejected (maxValue p))"

definition values_accepted :: "'s parameters option \<Rightarrow> bool" where
  "values_accepted ps =
     (case spread_values ps of None \<Rightarrow> False | Some vs \<Rightarrow> flat_defined vs)"

definition compiled_properties :: "'s parameters \<Rightarrow> (string \<times> 's) list option option" where
  "compiled_properties p =
     (case properties p of None \<Rightarrow> Some None | Some kvs \<Rightarrow> map_option Some (compile_keys kvs))"

definition compiled_element :: "'s parameters \<Rightarrow> 's option" where
  "compiled_element p = (case arrayType p of None \<Rightarrow> None | Some t \<Rightarrow> joi_compile t)"

definition properties_accepted :: "'s parameters option \<Rightarrow> bool" where
  "properties_accepted ps =
     (case ps of None \<Rightarrow> False | Some p \<Rightarrow> compiled_properties p \<noteq> None)"

definition element_accepted :: "'s parameters option \<Rightarrow> bool" where
  "element_accepted ps = (case ps of None \<Rightarrow> False | Some p \<Rightarrow> compiled_element p \<noteq> None)"

section \<open>The properties, as predicates on a factory\<close>

text \<open>A falsy length bound, description or default gives the result of omitting the
  field.\<close>

definition falsy_as_omitted :: "('s parameters option \<Rightarrow> 's node option) \<Rightarrow> bool" where
  "falsy_as_omitted F =
     (\<forall>p. F (Some (p\<lparr>minLength := Some (Finite 0)\<rparr>)) = F (Some (p\<lparr>minLength := None\<rparr>))
        \<and> F (Some (p\<lparr>maxLength := Some (Finite 0)\<rparr>)) = F (Some (p\<lparr>maxLength := None\<rparr>))
        \<and> F (Some (p\<lparr>description := Some ''''\<rparr>)) = F (Some (p\<lparr>description := None\<rparr>))
        \<and> F (Some (p\<lparr>default := Some (JSString '''')\<rparr>)) = F (Some (p\<lparr>default := None\<rparr>)))"



text \<open>Absent fields. Each predicate says of a factory that a node it returns carries no
  entry for a field the configuration does not have: the description, presence, default and
  example; the null value among the allowed values (for an enumeration the allowed values
  are then the listed ones); the length bounds; the value bounds; the property map.
  \<open>bare F n\<close>: called without a configuration, and with the empty one, \<open>F\<close> returns
  \<open>n\<close>.\<close>

definition absent_common :: "('s parameters option \<Rightarrow> 's node option) \<Rightarrow> bool" where
  "absent_common F =
     (\<forall>p n. F (Some p) = Some n \<longrightarrow>
        (description p = None \<longrightarrow> flag_description n = None)
        \<and> (required p = None \<longrightarrow> flag_presence n = None)
        \<and> (default p = None \<longrightarrow> flag_default n = None)
        \<and> (example p = None \<longrightarrow> examples n = []))"

definition absent_nullable :: "('s parameters option \<Rightarrow> 's node option) \<Rightarrow> bool" where
  "absent_nullable F = (\<forall>p n. F (Some p) = Some n \<longrightarrow> nullable p = None \<longrightarrow> valids n = [])"

definition absent_nullable_enum :: "('s parameters option \<Rightarrow> 's node option) \<Rightarrow> bool" where
  "absent_nullable_enum F =
     (\<forall>p n. F (Some p) = Some n \<longrightarrow> nullable p = None \<longrightarrow>
        (\<exists>vs. values p = Some vs \<and> valids n = add_values [] vs))"

definition absent_lengths :: "('s parameters option \<Rightarrow> 's node option) \<Rightarrow> bool" where
  "absent_lengths F =
     (\<forall>p n. F (Some p) = Some n \<longrightarrow>
        (minLength p = None \<longrightarrow> min_limits n = [])
        \<and> (maxLength p = None \<longrightarrow> max_limits n = []))"

definition absent_values :: "('s parameters option \<Rightarrow> 's node option) \<Rightarrow> bool" where
  "absent_values F =
     (\<forall>p n. F (Some p) = Some n \<longrightarrow>
        (minValue p = None \<longrightarrow> min_limits n = [])
        \<and> (maxValue p = None \<longrightarrow> max_limits n = []))"

definition absent_properties :: "('s parameters option \<Rightarrow> 's node option) \<Rightarrow> bool" where
  "absent_properties F = (\<forall>p n. F (Some p) = Some n \<longrightarrow> properties p = None \<longrightarrow> keys n = None)"

definition bare :: "('s parameters option \<Rightarrow> 's node option) \<Rightarrow> 's node \<Rightarrow> bool" where
  "bare F n = (F None = Some n \<and> F (Some empty_config) = Some n)"

section \<open>The guarded steps\<close>

lemma bind_if_None_Some:
  "((if c then None else Some x) \<bind> f) = (if c then None else f x)"
  by simp

lemma override_simps [simp]:
  "override x None = x" "override None y = y" "override (Some v) y = Some v"
  by (simp_all add: override_def split: option.split)

lemma replace_rule_None [simp]: "replace_rule None old = old"
  by (simp add: replace_rule_def)

lemma add_values_null_if [simp]: "add_values [] (null_if field) = null_if field"
  by (simp add: null_if_def)

lemma guarded_description:
  "guarded (\<lambda>d. truthy (JSString d)) field joi_description j =
     Some (flag_description_update (override (applied (\<lambda>d. truthy (JSString d)) field)) j)"
  by (cases field) (simp_all add: guarded_def applied_def joi_description_def)

lemma guarded_required:
  "guarded (\<lambda>r. typeof (JSBoolean r) = ''boolean'') field
       (\<lambda>r joiType. if r then joi_required joiType else joi_optional joiType) j =
     Some (flag_presence_update
             (override (map_option (\<lambda>r. if r then Required else Optional) field)) j)"
  by (cases field) (simp_all add: guarded_def joi_required_def joi_optional_def)

lemma guarded_required_only:
  "guarded (\<lambda>r. typeof (JSBoolean r) = ''boolean'' \<and> r) field (\<lambda>r. joi_required) j =
     Some (flag_presence_update
             (override (if field = Some True then Some Required else None)) j)"
  by (cases field) (auto simp add: guarded_def joi_required_def)

lemma guarded_nullable:
  "guarded (\<lambda>n. typeof (JSBoolean n) = ''boolean'' \<and> n) field (\<lambda>n. joi_allow [JSNull]) j =
     Some (valids_update (\<lambda>old. add_values old (null_if field)) j)"
  by (cases field) (auto simp add: guarded_def joi_allow_def flat_defined_def null_if_def)

lemma guarded_nullable_truthy:
  "guarded (\<lambda>n. truthy (JSBoolean n)) field (\<lambda>n. joi_allow [JSNull]) j =
     Some (valids_update (\<lambda>old. add_values old (null_if field)) j)"
  by (cases field) (auto simp add: guarded_def joi_allow_def flat_defined_def null_if_def)

lemma guarded_min:
  "guarded test field joi_min j =
     (if rejected (kind j) test field then None
      else Some (rules_update (replace_rule (map_option Rule_min (applied test field))) j))"
  by (cases field)
     (simp_all add: guarded_def applied_def rejected_def joi_min_def addRule_def replace_rule_def)

lemma guarded_max:
  "guarded test field joi_max j =
     (if rejected (kind j) test field then None
      else Some (rules_update (replace_rule (map_option Rule_max (applied test field))) j))"
  by (cases field)
     (simp_all add: guarded_def applied_def rejected_def joi_max_def addRule_def replace_rule_def)

lemma guarded_default_truthy:
  "guarded truthy field joi_default j =
     Some (flag_default_update (override (applied truthy field)) j)"
  by (cases field) (auto simp add: guarded_def applied_def joi_default_def)

lemma guarded_default_number:
  "guarded (\<lambda>v. typeof v = ''number'') field joi_default j =
     Some (flag_default_update (override (applied (\<lambda>v. typeof v = ''number'') field)) j)"
  by (cases field) (auto simp add: guarded_def applied_def joi_default_def)

lemma guarded_default_boolean:
  "guarded (\<lambda>v. typeof v = ''boolean'') field joi_default j =
     Some (flag_default_update (override (applied (\<lambda>v. typeof v = ''boolean'') field)) j)"
  by (cases field) (auto simp add: guarded_def applied_def joi_default_def)

lemma guarded_example_truthy:
  "guarded truthy field joi_example j =
     Some (examples_update (\<lambda>old. old @ list_of (applied truthy field)) j)"
  by (cases field) (auto simp add: guarded_def applied_def joi_example_def)

lemma guarded_example_number:
  "guarded (\<lambda>v. typeof v = ''number'') field joi_example j =
     Some (examples_update (\<lambda>old. old @ list_of (applied (\<lambda>v. typeof v = ''number'') field)) j)"
  by (cases field) (auto simp add: guarded_def applied_def joi_example_def)

lemma guarded_example_boolean:
  "guarded (\<lambda>v. typeof v = ''boolean'') field joi_example j =
     Some (examples_update (\<lambda>old. old @ list_of (applied (\<lambda>v. typeof v = ''boolean'') field)) j)"
  by (cases field) (auto simp add: guarded_def applied_def joi_example_def)

lemmas guarded_steps = guarded_description guarded_required guarded_required_only guarded_nullable
  guarded_nullable_truthy guarded_min guarded_max guarded_default_truthy
  guarded_default_number guarded_default_boolean
  guarded_example_truthy guarded_example_number guarded_example_boolean
  bind_if_None_Some bind.bind_lunit option.case

lemma replace_rule_min_max:
  "replace_rule (map_option Rule_max b) (replace_rule (map_option Rule_min a) []) =
     map Rule_min (list_of a) @ map Rule_max (list_of b)"
  by (cases a; cases b) (simp_all add: replace_rule_def)

lemma String_closed:
  "Types_String (Some p) =
    (if rejected KString (\<lambda>l. truthy (JSNumber l)) (minLength p)
        \<or> rejected KString (\<lambda>l. truthy (JSNumber l)) (maxLength p) then None
     else Some \<lparr> kind = KString,
       flag_description = applied (\<lambda>d. truthy (JSString d)) (description p),
       flag_presence = map_option (\<lambda>r. if r then Required else Optional) (required p),
       flag_default = applied truthy (default p),
       flag_only = False, flag_encoding = None, strict = False,
       valids = null_if (nullable p),
       rules = map Rule_min (list_of (applied (\<lambda>l. truthy (JSNumber l)) (minLength p)))
             @ map Rule_max (list_of (applied (\<lambda>l. truthy (JSNumber l)) (maxLength p))),
       metas = [],
       examples = list_of (applied truthy (example p)),
       keys = None, items = [] \<rparr>)"
  unfolding Types_String_def Joi_string_def Joi_any_def
  unfolding guarded_steps
  by (simp add: replace_rule_min_max)


lemma String_None: "Types_String None = Some Joi_string"
  by (simp add: Types_String_def)

lemma Binary_closed:
  "Types_Binary (Some p) =
    (if rejected KBinary (\<lambda>l. truthy (JSNumber l)) (minLength p)
        \<or> rejected KBinary (\<lambda>l. truthy (JSNumber l)) (maxLength p) then None
     else Some \<lparr> kind = KBinary,
       flag_description = applied (\<lambda>d. truthy (JSString d)) (description p),
       flag_presence = map_option (\<lambda>r. if r then Required else Optional) (required p),
       flag_default = applied truthy (default p),
       flag_only = False, flag_encoding = None, strict = False,
       valids = null_if (nullable p),
       rules = map Rule_min (list_of (applied (\<lambda>l. truthy (JSNumber l)) (minLength p)))
             @ map Rule_max (list_of (applied (\<lambda>l. truthy (JSNumber l)) (maxLength p))),
       metas = [],
       examples = list_of (applied truthy (example p)),
       keys = None, items = [] \<rparr>)"
  unfolding Types_Binary_def Joi_binary_def Joi_any_def
  unfolding guarded_steps
  by (simp add: replace_rule_min_max)

lemma Binary_None: "Types_Binary None = Some Joi_binary"
  by (simp add: Types_Binary_def)

lemma DateTime_closed:
  "Types_DateTime (Some p) =
     Some \<lparr> kind = KString,
       flag_description = applied (\<lambda>d. truthy (JSString d)) (description p),
       flag_presence = map_option (\<lambda>r. if r then Required else Optional) (required p),
       flag_default = None,
       flag_only = False, flag_encoding = None, strict = False,
       valids = null_if (nullable p),
       rules = [Rule_isoDate, Rule_max (Finite 24)],
       metas = [], examples = [], keys = None, items = [] \<rparr>"
  unfolding Types_DateTime_def Joi_string_def Joi_any_def joi_isoDate_def joi_max_def addRule_def
  unfolding guarded_steps
  by (simp add: accepts_bound_def limit_def)

lemma DateTime_None:
  "Types_DateTime None = Some (Joi_string\<lparr>rules := [Rule_isoDate, Rule_max (Finite 24)]\<rparr>)"
  unfolding Types_DateTime_def Joi_string_def Joi_any_def joi_isoDate_def joi_max_def addRule_def
  by (simp add: accepts_bound_def limit_def)

lemma Number_closed:
  "Types_Number (Some p) =
    (if rejected KNumber (\<lambda>l. typeof (JSNumber l) = ''number'') (minValue p)
        \<or> rejected KNumber (\<lambda>l. typeof (JSNumber l) = ''number'') (maxValue p) then None
     else Some \<lparr> kind = KNumber,
       flag_description = applied (\<lambda>d. truthy (JSString d)) (description p),
       flag_presence = (if required p = Some True then Some Required else None),
       flag_default = applied (\<lambda>v. typeof v = ''number'') (default p),
       flag_only = False, flag_encoding = None, strict = False,
       valids = null_if (nullable p),
       rules = map Rule_min (list_of (applied (\<lambda>l. typeof (JSNumber l) = ''number'') (minValue p)))
             @ map Rule_max (list_of (applied (\<lambda>l. typeof (JSNumber l) = ''number'') (maxValue p))),
       metas = [],
       examples = list_of (applied (\<lambda>v. typeof v = ''number'') (example p)),
       keys = None, items = [] \<rparr>)"
  unfolding Types_Number_def Joi_number_def Joi_any_def
  unfolding guarded_steps
  by (simp add: replace_rule_min_max)

lemma Number_None: "Types_Number None = Some Joi_number"
  by (simp add: Types_Number_def)

lemma Boolean_closed:
  "Types_Boolean (Some p) =
     Some \<lparr> kind = KBoolean,
       flag_description = applied (\<lambda>d. truthy (JSString d)) (description p),
       flag_presence = map_option (\<lambda>r. if r then Required else Optional) (required p),
       flag_default = applied (\<lambda>v. typeof v = ''boolean'') (default p),
       flag_only = False, flag_encoding = None, strict = True,
       valids = null_if (nullable p),
       rules = [],
       metas = [],
       examples = list_of (applied (\<lambda>v. typeof v = ''boolean'') (example p)),
       keys = None, items = [] \<rparr>"
  unfolding Types_Boolean_def Joi_boolean_def Joi_any_def joi_strict_def
  unfolding guarded_steps
  by simp

lemma Boolean_None: "Types_Boolean None = Some (Joi_boolean\<lparr>strict := True\<rparr>)"
  by (simp add: Types_Boolean_def joi_strict_def)

lemma joi_keys_compiled:
  "(Some (Joi_any k) \<bind> joi_keys (properties p)) =
     map_option (\<lambda>children. ((Joi_any k)\<lparr>keys := children\<rparr>)) (compiled_properties p)"
  by (simp add: joi_keys_def compiled_properties_def Joi_any_def option.map_comp comp_def
      split: option.split list.split)

lemma Object_closed:
  "Types_Object (Some p) =
     map_option (\<lambda>children. \<lparr> kind = KObject,
       flag_description = applied (\<lambda>d. truthy (JSString d)) (description p),
       flag_presence = map_option (\<lambda>r. if r then Required else Optional) (required p),
       flag_default = applied truthy (default p),
       flag_only = False, flag_encoding = None, strict = False,
       valids = null_if (nullable p),
       rules = [],
       metas = [],
       examples = list_of (applied truthy (example p)),
       keys = children, items = [] \<rparr>) (compiled_properties p)"
proof (cases "compiled_properties p")
  case None
  show ?thesis
    unfolding Types_Object_def Joi_object_def joi_keys_compiled None option.case
    by simp
next
  case (Some children)
  show ?thesis
    unfolding Types_Object_def Joi_object_def joi_keys_compiled Some option.case option.map
    unfolding Joi_any_def
    unfolding guarded_steps
    by simp
qed

lemma joi_items_compiled:
  "(Some j \<bind> joi_items (arrayType p)) =
     map_option (\<lambda>child. j\<lparr>items := items j @ [child]\<rparr>) (compiled_element p)"
  by (simp add: joi_items_def compiled_element_def split: option.split)

lemma Array_closed:
  "Types_Array (Some p) =
    (case compiled_element p of None \<Rightarrow> None | Some t \<Rightarrow>
     if rejected KArray (\<lambda>l. truthy (JSNumber l)) (minLength p)
        \<or> rejected KArray (\<lambda>l. truthy (JSNumber l)) (maxLength p) then None
     else Some \<lparr> kind = KArray,
       flag_description = applied (\<lambda>d. truthy (JSString d)) (description p),
       flag_presence = map_option (\<lambda>r. if r then Required else Optional) (required p),
       flag_default = applied truthy (default p),
       flag_only = False, flag_encoding = None, strict = False,
       valids = null_if (nullable p),
       rules = map Rule_min (list_of (applied (\<lambda>l. truthy (JSNumber l)) (minLength p)))
             @ map Rule_max (list_of (applied (\<lambda>l. truthy (JSNumber l)) (maxLength p))),
       metas = [],
       examples = list_of (applied truthy (example p)),
       keys = None, items = [t] \<rparr>)"
proof (cases "compiled_element p")
  case None
  show ?thesis
    unfolding Types_Array_def Joi_array_def joi_items_compiled None option.case
    by simp
next
  case (Some t)
  show ?thesis
    unfolding Types_Array_def Joi_array_def joi_items_compiled Some option.case option.map
    unfolding Joi_any_def
    unfolding guarded_steps
    by (simp add: replace_rule_min_max)
qed

lemma compiled_frame [simp]:
  "compiled_properties (required_update f p) = compiled_properties p"
  "compiled_properties (default_update g p) = compiled_properties p"
  "compiled_properties (example_update g p) = compiled_properties p"
  "compiled_element (required_update f p) = compiled_element p"
  "compiled_element (default_update g p) = compiled_element p"
  "compiled_element (example_update g p) = compiled_element p"
  by (simp_all add: compiled_properties_def compiled_element_def)

lemma compiled_absent [simp]:
  "properties p = None \<Longrightarrow> compiled_properties p = Some None"
  "arrayType p = None \<Longrightarrow> compiled_element p = None"
  by (simp_all add: compiled_properties_def compiled_element_def)

section \<open>The factories built on another factory\<close>

lemma filter_rule_min:
  "filter (\<lambda>r'. rule_name r' \<noteq> s) (map Rule_min xs) = (if s = ''min'' then [] else map Rule_min xs)"
  by (induction xs) auto

lemma filter_rule_max:
  "filter (\<lambda>r'. rule_name r' \<noteq> s) (map Rule_max xs) = (if s = ''max'' then [] else map Rule_max xs)"
  by (induction xs) auto

lemma map_option_if_None:
  "map_option f (if c then None else Some x) = (if c then None else Some (f x))"
  by simp

lemma accepts_KString [simp]:
  "accepts_bound KString (Finite 36)" "accepts_bound KString (Finite 7)"
  "accepts_bound KString (Finite 15)" "accepts_bound KString (Finite 3)"
  "accepts_bound KString (Finite 45)" "accepts_bound KString (Finite 10)"
  "accepts_bound KString (Finite 24)"
  by (simp_all add: accepts_bound_def limit_def)

lemmas derived_simps = String_closed String_None Binary_closed Binary_None Number_closed Number_None
  DateTime_closed DateTime_None
  Joi_string_def Joi_binary_def Joi_number_def Joi_any_def
  joi_email_def joi_meta_def joi_uuid_def joi_uri_def joi_hostname_def joi_ip_def
  joi_encoding_def joi_integer_def joi_min_def joi_max_def addRule_def
  filter_rule_min filter_rule_max

lemma Email_rel:
  "Types_Email ps = map_option (rules_update (\<lambda>old. old @ [Rule_email])) (Types_String ps)"
  by (cases ps) (simp_all add: Types_Email_def derived_simps)

lemma Password_rel:
  "Types_Password ps =
     map_option (metas_update (\<lambda>old. old @ [(''format'', ''password'')])) (Types_String ps)"
  by (cases ps) (simp_all add: Types_Password_def derived_simps)

lemma Uuid_rel:
  "Types_Uuid ps =
     map_option (\<lambda>j. j\<lparr>rules := [Rule_guid ''uuidv4'', Rule_min (Finite 36), Rule_max (Finite 36)],
                         metas := metas j @ [(''format'', ''uuid'')]\<rparr>) (Types_String ps)"
  by (cases ps) (simp_all add: Types_Uuid_def derived_simps)

lemma Uri_rel:
  "Types_Uri ps =
     map_option (\<lambda>j. j\<lparr>rules := rules j @ [Rule_uri],
                         metas := metas j @ [(''format'', ''uri'')]\<rparr>) (Types_String ps)"
  by (cases ps) (simp_all add: Types_Uri_def derived_simps)

lemma Hostname_rel:
  "Types_Hostname ps =
     map_option (\<lambda>j. j\<lparr>rules := rules j @ [Rule_hostname],
                         metas := metas j @ [(''format'', ''hostname'')]\<rparr>) (Types_String ps)"
  by (cases ps) (simp_all add: Types_Hostname_def derived_simps)

lemma Ipv4_rel:
  "Types_Ipv4 ps =
     map_option (\<lambda>j. j\<lparr>rules := [Rule_ip [''ipv4''], Rule_min (Finite 7), Rule_max (Finite 15)],
                         metas := metas j @ [(''format'', ''ipv4'')]\<rparr>) (Types_String ps)"
  by (cases ps) (simp_all add: Types_Ipv4_def derived_simps)

lemma Ipv6_rel:
  "Types_Ipv6 ps =
     map_option (\<lambda>j. j\<lparr>rules := [Rule_ip [''ipv6''], Rule_min (Finite 3), Rule_max (Finite 45)],
                         metas := metas j @ [(''format'', ''ipv6'')]\<rparr>) (Types_String ps)"
  by (cases ps) (simp_all add: Types_Ipv6_def derived_simps)

lemma Byte_rel:
  "Types_Byte ps = map_option (\<lambda>j. j\<lparr>flag_encoding := Some ''base64''\<rparr>) (Types_Binary ps)"
  by (cases ps) (simp_all add: Types_Byte_def derived_simps)

lemma Date_rel:
  "Types_Date ps =
     map_option (\<lambda>j. j\<lparr>rules := [Rule_isoDate, Rule_min (Finite 10), Rule_max (Finite 10)],
                         metas := metas j @ [(''format'', ''date'')]\<rparr>) (Types_DateTime ps)"
  by (cases ps) (simp_all add: Types_Date_def derived_simps)

lemma Integer_rel:
  "Types_Integer ps = map_option (rules_update (\<lambda>old. old @ [Rule_integer])) (Types_Number ps)"
  by (cases ps) (simp_all add: Types_Integer_def derived_simps)

lemma joi_valid_restricted:
  "joi_valid vs j = (if flat_defined vs then Some (restricted vs j) else None)"
  by (simp add: joi_valid_def joi_allow_def restricted_def)

lemma enum_rel:
  "(base \<bind> (\<lambda>joiType. spread_values ps \<bind> (\<lambda>vs. joi_valid vs joiType))) = enum_of ps base"
  by (cases base; cases "spread_values ps") (simp_all add: enum_of_def joi_valid_restricted)

lemma StringEnum_rel: "Types_StringEnum ps = enum_of ps (Types_String ps)"
  by (simp add: Types_StringEnum_def enum_rel)

lemma NumberEnum_rel: "Types_NumberEnum ps = enum_of ps (Types_Number ps)"
  by (simp add: Types_NumberEnum_def enum_rel)

lemma IntegerEnum_rel: "Types_IntegerEnum ps = enum_of ps (Types_Integer ps)"
  by (simp add: Types_IntegerEnum_def enum_rel)

lemma rejected_length [simp]:
  "k \<noteq> KNumber \<Longrightarrow> rejected k (\<lambda>l. truthy (JSNumber l)) field = length_rejected field"
  by (simp add: rejected_def applied_def length_rejected_def accepts_bound_def split: option.split)

lemma rejected_value [simp]:
  "rejected KNumber (\<lambda>l. typeof (JSNumber l) = ''number'') field = value_rejected field"
  by (auto simp add: rejected_def applied_def value_rejected_def accepts_bound_def isNumber_def
      split: option.split)

lemma applied_typeof_number [simp]:
  "applied (\<lambda>l. typeof (JSNumber l) = ''number'') field = field"
  by (simp add: applied_def split: option.split)

lemma restricted_fields [simp]:
  "flag_presence (restricted vs j) = flag_presence j"
  "flag_description (restricted vs j) = flag_description j"
  "flag_default (restricted vs j) = flag_default j"
  "examples (restricted vs j) = examples j"
  "rules (restricted vs j) = rules j"
  "metas (restricted vs j) = metas j"
  "kind (restricted vs j) = kind j"
  "valids (restricted vs j) = add_values (valids j) vs"
  by (simp_all add: restricted_def)

lemma enum_of_Some:
  "enum_of (Some p) base = Some n \<longleftrightarrow>
     (\<exists>vs m. values p = Some vs \<and> flat_defined vs \<and> base = Some m \<and> n = restricted vs m)"
  by (auto simp add: enum_of_def spread_values_def split: option.splits if_splits)


subsection \<open>Requiredness\<close>














lemma applied_True [simp]: "applied (\<lambda>l. True) field = field"
  by (simp add: applied_def split: option.split)

lemma rejected_True [simp]: "rejected KNumber (\<lambda>l. True) field = value_rejected field"
  using rejected_value [of field] by simp

lemma map_filter_append:
  "List.map_filter f (xs @ ys) = List.map_filter f xs @ List.map_filter f ys"
  by (simp add: List.map_filter_def)

lemma map_filter_limits [simp]:
  "List.map_filter min_limit (map Rule_min xs) = xs"
  "List.map_filter min_limit (map Rule_max xs) = []"
  "List.map_filter max_limit (map Rule_max xs) = xs"
  "List.map_filter max_limit (map Rule_min xs) = []"
  by (induction xs) (simp_all add: List.map_filter_simps)

lemma min_limits_min_max [simp]:
  "List.map_filter min_limit (map Rule_min xs @ map Rule_max ys) = xs"
  by (simp add: map_filter_append)

lemma max_limits_min_max [simp]:
  "List.map_filter max_limit (map Rule_min xs @ map Rule_max ys) = ys"
  by (simp add: map_filter_append)

lemma map_filter_snoc:
  "List.map_filter f (xs @ [x]) = List.map_filter f xs @ list_of (f x)"
  by (cases "f x") (simp_all add: List.map_filter_def)

lemma String_Some_iff:
  "(\<exists>n. Types_String ps = Some n) = lengths_accepted ps"
  by (cases ps) (simp_all add: String_closed String_None lengths_accepted_def)

lemma Number_limits:
  "Types_Number (Some p) = Some n \<Longrightarrow>
     min_limits n = list_of (minValue p) \<and> max_limits n = list_of (maxValue p)"
  by (auto simp add: Number_closed min_limits_def max_limits_def split: if_splits)

lemma Number_None_iff:
  "(Types_Number (Some p) = None) = (value_rejected (minValue p) \<or> value_rejected (maxValue p))"
  by (simp add: Number_closed)

lemma Number_Some_iff: "(\<exists>n. Types_Number ps = Some n) = bounds_accepted ps"
  by (cases ps) (simp_all add: Number_closed Number_None bounds_accepted_def)

lemma Binary_Some_iff: "(\<exists>n. Types_Binary ps = Some n) = lengths_accepted ps"
  by (cases ps) (simp_all add: Binary_closed Binary_None lengths_accepted_def)

lemma Object_None: "Types_Object None = None"
  by (simp add: Types_Object_def)

lemma Array_None: "Types_Array None = None"
  by (simp add: Types_Array_def)

lemma map_option_Some_iff: "(\<exists>n. map_option g x = Some n) = (\<exists>m. x = Some m)"
  by (cases x) simp_all

lemma enum_of_Some_iff:
  "(\<exists>n. enum_of ps base = Some n) = ((\<exists>m. base = Some m) \<and> values_accepted ps)"
  by (cases base; cases "spread_values ps") (simp_all add: enum_of_def values_accepted_def)

lemma applied_None [simp]: "applied test None = None"
  by (simp add: applied_def)

lemma null_if_None [simp]: "null_if None = []"
  by (simp add: null_if_def)

lemma factory_map_Some:
  "(\<And>ps. G ps = map_option g (F ps)) \<Longrightarrow> G ps = Some n \<longleftrightarrow> (\<exists>m. F ps = Some m \<and> n = g m)"
  by auto

lemma factory_enum_Some:
  "(\<And>ps. G ps = enum_of ps (F ps)) \<Longrightarrow>
     G (Some p) = Some n \<longleftrightarrow>
       (\<exists>vs m. values p = Some vs \<and> flat_defined vs \<and> F (Some p) = Some m \<and> n = restricted vs m)"
  by (simp add: enum_of_Some)

lemma absent_common_base:
  "absent_common Types_String" "absent_common Types_Binary" "absent_common Types_DateTime"
  "absent_common Types_Number" "absent_common Types_Boolean" "absent_common Types_Object"
  "absent_common Types_Array"
  by (auto simp add: absent_common_def String_closed Binary_closed DateTime_closed Number_closed
      Boolean_closed Object_closed Array_closed split: if_splits option.splits)

lemma absent_common_map:
  assumes "absent_common F" and "\<And>ps. G ps = map_option g (F ps)"
    and "\<And>j. flag_description (g j) = flag_description j \<and> flag_presence (g j) = flag_presence j
           \<and> flag_default (g j) = flag_default j \<and> examples (g j) = examples j"
  shows "absent_common G"
  using assms(1) by (auto simp add: absent_common_def factory_map_Some [of G g F, OF assms(2)] assms(3))

lemma absent_common_enum:
  assumes "absent_common F" and "\<And>ps. G ps = enum_of ps (F ps)"
  shows "absent_common G"
  using assms(1) by (auto simp add: absent_common_def factory_enum_Some [of G F, OF assms(2)])

lemma absent_nullable_base:
  "absent_nullable Types_String" "absent_nullable Types_Binary" "absent_nullable Types_DateTime"
  "absent_nullable Types_Number" "absent_nullable Types_Boolean" "absent_nullable Types_Object"
  "absent_nullable Types_Array"
  by (auto simp add: absent_nullable_def String_closed Binary_closed DateTime_closed Number_closed
      Boolean_closed Object_closed Array_closed split: if_splits option.splits)

lemma absent_nullable_map:
  assumes "absent_nullable F" and "\<And>ps. G ps = map_option g (F ps)"
    and "\<And>j. valids (g j) = valids j"
  shows "absent_nullable G"
  using assms(1) by (auto simp add: absent_nullable_def factory_map_Some [of G g F, OF assms(2)] assms(3))

lemma absent_nullable_enum_lift:
  assumes "absent_nullable F" and "\<And>ps. G ps = enum_of ps (F ps)"
  shows "absent_nullable_enum G"
  using assms(1)
  by (auto simp add: absent_nullable_def absent_nullable_enum_def
      factory_enum_Some [of G F, OF assms(2)])

lemma absent_lengths_base:
  "absent_lengths Types_String" "absent_lengths Types_Binary" "absent_lengths Types_Array"
  by (auto simp add: absent_lengths_def String_closed Binary_closed Array_closed
      min_limits_def max_limits_def split: if_splits option.splits)

lemma absent_values_base: "absent_values Types_Number"
  by (auto simp add: absent_values_def Number_closed min_limits_def max_limits_def
      split: if_splits)

lemma absent_lengths_map:
  assumes "absent_lengths F" and "\<And>ps. G ps = map_option g (F ps)"
    and "\<And>j. min_limits (g j) = min_limits j \<and> max_limits (g j) = max_limits j"
  shows "absent_lengths G"
  using assms(1) by (auto simp add: absent_lengths_def factory_map_Some [of G g F, OF assms(2)] assms(3))

lemma absent_values_map:
  assumes "absent_values F" and "\<And>ps. G ps = map_option g (F ps)"
    and "\<And>j. min_limits (g j) = min_limits j \<and> max_limits (g j) = max_limits j"
  shows "absent_values G"
  using assms(1) by (auto simp add: absent_values_def factory_map_Some [of G g F, OF assms(2)] assms(3))

lemma restricted_limits [simp]:
  "min_limits (restricted vs j) = min_limits j" "max_limits (restricted vs j) = max_limits j"
  by (simp_all add: min_limits_def max_limits_def)

lemma absent_lengths_enum:
  assumes "absent_lengths F" and "\<And>ps. G ps = enum_of ps (F ps)"
  shows "absent_lengths G"
  using assms(1) by (auto simp add: absent_lengths_def factory_enum_Some [of G F, OF assms(2)])

lemma absent_values_enum:
  assumes "absent_values F" and "\<And>ps. G ps = enum_of ps (F ps)"
  shows "absent_values G"
  using assms(1) by (auto simp add: absent_values_def factory_enum_Some [of G F, OF assms(2)])

lemma limits_snoc [simp]:
  "min_limit r = None \<Longrightarrow> min_limits (j\<lparr>rules := rules j @ [r]\<rparr>) = min_limits j"
  "max_limit r = None \<Longrightarrow> max_limits (j\<lparr>rules := rules j @ [r]\<rparr>) = max_limits j"
  by (simp_all add: min_limits_def max_limits_def map_filter_snoc)

lemma limits_other [simp]:
  "min_limits (metas_update f j) = min_limits j" "max_limits (metas_update f j) = max_limits j"
  "min_limits (flag_encoding_update h j) = min_limits j"
  "max_limits (flag_encoding_update h j) = max_limits j"
  by (simp_all add: min_limits_def max_limits_def)

lemma empty_config_fields [simp]:
  "description empty_config = None" "required empty_config = None" "nullable empty_config = None"
  "default empty_config = None" "example empty_config = None" "minLength empty_config = None"
  "maxLength empty_config = None" "minValue empty_config = None" "maxValue empty_config = None"
  "values empty_config = None" "properties empty_config = None" "arrayType empty_config = None"
  by (simp_all add: empty_config_def)

lemma rejected_None [simp]: "length_rejected None = False" "value_rejected None = False"
  by (simp_all add: length_rejected_def value_rejected_def)

lemma bare_base:
  "bare Types_String Joi_string" "bare Types_Binary Joi_binary" "bare Types_Number Joi_number"
  "bare Types_DateTime (Joi_string\<lparr>rules := [Rule_isoDate, Rule_max (Finite 24)]\<rparr>)"
  "bare Types_Boolean (Joi_boolean\<lparr>strict := True\<rparr>)"
  by (simp_all add: bare_def String_closed String_None Binary_closed Binary_None Number_closed
      Number_None DateTime_closed DateTime_None Boolean_closed Boolean_None
      Joi_string_def Joi_binary_def Joi_number_def Joi_boolean_def Joi_any_def)

lemma bare_map:
  "bare F n \<Longrightarrow> (\<And>ps. G ps = map_option g (F ps)) \<Longrightarrow> bare G (g n)"
  by (simp add: bare_def)

subsection \<open>Falsy fields\<close>

lemma String_falsy: "falsy_as_omitted Types_String"
  by (simp add: falsy_as_omitted_def String_closed applied_def rejected_def)

lemma Binary_falsy: "falsy_as_omitted Types_Binary"
  by (simp add: falsy_as_omitted_def Binary_closed applied_def rejected_def)

lemma falsy_map:
  "falsy_as_omitted F \<Longrightarrow> (\<And>ps. G ps = map_option g (F ps)) \<Longrightarrow> falsy_as_omitted G"
  by (simp add: falsy_as_omitted_def)

lemma falsy_enum:
  "falsy_as_omitted F \<Longrightarrow> (\<And>ps. G ps = enum_of ps (F ps)) \<Longrightarrow> falsy_as_omitted G"
  by (simp add: falsy_as_omitted_def enum_of_def spread_values_def split: option.split)

lemma falsy_dropped:
  "\<not> truthy v \<Longrightarrow> applied truthy (Some v) = None"
  by (simp add: applied_def)

lemma mandatory_config:
  "Types_StringEnum None = None" "Types_NumberEnum None = None" "Types_IntegerEnum None = None"
  by (simp_all add: StringEnum_rel NumberEnum_rel IntegerEnum_rel enum_of_def spread_values_def)

section \<open>The properties\<close>



text \<open>
  Claim C2 as stated ("always produces a node ... for every input configuration, overriding
  any caller-supplied minLength/maxLength") does not hold at a caller-supplied bound that
  the builder rejects: \<^verbatim>\<open>Types.Uuid\<close> hands the configuration to \<^verbatim>\<open>Types.String\<close>, which
  passes the truthy \<^verbatim>\<open>minLength: -1\<close> to \<^verbatim>\<open>min\<close> and throws before the bounds 36..36 are
  set.
\<close>

theorem forced_length_bounds_counterexample:
  "Types_Uuid (Some ((empty_config :: unit parameters)\<lparr>minLength := Some (Finite (- 1))\<rparr>)) = None"
  by (simp add: Uuid_rel String_closed length_rejected_def limit_def)

text \<open>
  Claim C2, as amended. Whatever the configuration, a node returned by \<^verbatim>\<open>Types.Uuid\<close> has
  exactly the length bounds 36..36, one returned by \<^verbatim>\<open>Types.Ipv4\<close> 7..15 and one returned
  by \<^verbatim>\<open>Types.Ipv6\<close> 3..45: a \<^verbatim>\<open>minLength\<close> or \<^verbatim>\<open>maxLength\<close> that the configuration
  carries is applied by \<^verbatim>\<open>Types.String\<close> first and then replaced. The factory returns a
  node for the absent configuration and for every configuration whose length fields are
  falsy or non-negative safe integers, and for no other; that covers every configuration
  that has only the fields of the declared types \<^verbatim>\<open>UuidParameters\<close> and \<^verbatim>\<open>IpParameters\<close>,
  which have no length fields.
\<close>

theorem forced_length_bounds:
  "(\<forall>n. Types_Uuid ps = Some n \<longrightarrow> min_limits n = [Finite 36] \<and> max_limits n = [Finite 36])
   \<and> (\<forall>n. Types_Ipv4 ps = Some n \<longrightarrow> min_limits n = [Finite 7] \<and> max_limits n = [Finite 15])
   \<and> (\<forall>n. Types_Ipv6 ps = Some n \<longrightarrow> min_limits n = [Finite 3] \<and> max_limits n = [Finite 45])
   \<and> (\<exists>n. Types_Uuid ps = Some n) = lengths_accepted ps
   \<and> (\<exists>n. Types_Ipv4 ps = Some n) = lengths_accepted ps
   \<and> (\<exists>n. Types_Ipv6 ps = Some n) = lengths_accepted ps"
proof -
  have "min_limits n = [Finite 36] \<and> max_limits n = [Finite 36]" if "Types_Uuid ps = Some n" for n
    using that by (auto simp add: Uuid_rel min_limits_def max_limits_def List.map_filter_simps)
  moreover have "min_limits n = [Finite 7] \<and> max_limits n = [Finite 15]"
    if "Types_Ipv4 ps = Some n" for n
    using that by (auto simp add: Ipv4_rel min_limits_def max_limits_def List.map_filter_simps)
  moreover have "min_limits n = [Finite 3] \<and> max_limits n = [Finite 45]"
    if "Types_Ipv6 ps = Some n" for n
    using that by (auto simp add: Ipv6_rel min_limits_def max_limits_def List.map_filter_simps)
  moreover have "(\<exists>n. Types_Uuid ps = Some n) = lengths_accepted ps"
    using String_Some_iff [of ps] by (auto simp add: Uuid_rel)
  moreover have "(\<exists>n. Types_Ipv4 ps = Some n) = lengths_accepted ps"
    using String_Some_iff [of ps] by (auto simp add: Ipv4_rel)
  moreover have "(\<exists>n. Types_Ipv6 ps = Some n) = lengths_accepted ps"
    using String_Some_iff [of ps] by (auto simp add: Ipv6_rel)
  ultimately show ?thesis by blast
qed

text \<open>At \<^verbatim>\<open>Uuid({minLength: 5, maxLength: 50})\<close>, \<^verbatim>\<open>Ipv4()\<close> and \<^verbatim>\<open>Ipv6()\<close>.\<close>

theorem forced_length_bounds_witness:
  "min_limits (the (Types_Uuid (Some ((empty_config :: unit parameters)
       \<lparr>minLength := Some (Finite 5), maxLength := Some (Finite 50)\<rparr>)))) = [Finite 36]
   \<and> max_limits (the (Types_Uuid (Some ((empty_config :: unit parameters)
       \<lparr>minLength := Some (Finite 5), maxLength := Some (Finite 50)\<rparr>)))) = [Finite 36]
   \<and> min_limits (the (Types_Ipv4 (None :: unit parameters option))) = [Finite 7]
   \<and> max_limits (the (Types_Ipv6 (None :: unit parameters option))) = [Finite 45]"
proof -
  let ?p = "Some ((empty_config :: unit parameters)
       \<lparr>minLength := Some (Finite 5), maxLength := Some (Finite 50)\<rparr>)"
  have a: "lengths_accepted ?p" "lengths_accepted (None :: unit parameters option)"
    by (simp_all add: lengths_accepted_def length_rejected_def limit_def)
  from forced_length_bounds [of ?p] a(1)
  have u: "min_limits (the (Types_Uuid ?p)) = [Finite 36]"
    "max_limits (the (Types_Uuid ?p)) = [Finite 36]"
    by auto
  from forced_length_bounds [of "None :: unit parameters option"] a(2)
  have i: "min_limits (the (Types_Ipv4 (None :: unit parameters option))) = [Finite 7]"
    "max_limits (the (Types_Ipv6 (None :: unit parameters option))) = [Finite 45]"
    by auto
  from u i show ?thesis by simp
qed

text \<open>
  Claim C3. \<^verbatim>\<open>Types.DateTime\<close> returns a node for every configuration; the node is a text
  node with the ISO-date rule and the maximum length 24. It honours \<^verbatim>\<open>description\<close>,
  \<^verbatim>\<open>required\<close> and \<^verbatim>\<open>nullable\<close> and nothing else: whatever \<^verbatim>\<open>default\<close>, \<^verbatim>\<open>example\<close>,
  \<^verbatim>\<open>minLength\<close> and \<^verbatim>\<open>maxLength\<close> the configuration holds, the result is the one obtained
  with these four fields omitted, and two configurations that agree on the three honoured
  fields give the same node.
\<close>

theorem DateTime_honours_only_common:
  "(\<exists>n. Types_DateTime ps = Some n \<and> kind n = KString
        \<and> rules n = [Rule_isoDate, Rule_max (Finite 24)])
   \<and> (\<exists>n. Types_DateTime (Some p) = Some n
        \<and> flag_description n = applied (\<lambda>d. truthy (JSString d)) (description p)
        \<and> flag_presence n = map_option (\<lambda>r. if r then Required else Optional) (required p)
        \<and> valids n = null_if (nullable p)
        \<and> flag_default n = None \<and> examples n = [] \<and> min_limits n = []
        \<and> max_limits n = [Finite 24])
   \<and> Types_DateTime (Some (p\<lparr>default := d, example := e, minLength := a, maxLength := b\<rparr>))
       = Types_DateTime (Some (p\<lparr>default := None, example := None, minLength := None,
                                  maxLength := None\<rparr>))
   \<and> (description p = description q \<and> required p = required q \<and> nullable p = nullable q
        \<longrightarrow> Types_DateTime (Some p) = Types_DateTime (Some q))"
proof -
  have "\<exists>n. Types_DateTime ps = Some n \<and> kind n = KString
        \<and> rules n = [Rule_isoDate, Rule_max (Finite 24)]"
    by (cases ps) (simp_all add: DateTime_closed DateTime_None Joi_string_def Joi_any_def)
  moreover have "\<exists>n. Types_DateTime (Some p) = Some n
        \<and> flag_description n = applied (\<lambda>d. truthy (JSString d)) (description p)
        \<and> flag_presence n = map_option (\<lambda>r. if r then Required else Optional) (required p)
        \<and> valids n = null_if (nullable p)
        \<and> flag_default n = None \<and> examples n = [] \<and> min_limits n = []
        \<and> max_limits n = [Finite 24]"
    by (simp add: DateTime_closed min_limits_def max_limits_def List.map_filter_simps)
  moreover have "Types_DateTime (Some (p\<lparr>default := d, example := e, minLength := a, maxLength := b\<rparr>))
       = Types_DateTime (Some (p\<lparr>default := None, example := None, minLength := None,
                                  maxLength := None\<rparr>))"
    by (simp add: DateTime_closed)
  moreover have "description p = description q \<and> required p = required q \<and> nullable p = nullable q
        \<longrightarrow> Types_DateTime (Some p) = Types_DateTime (Some q)"
    by (simp add: DateTime_closed)
  ultimately show ?thesis by blast
qed

text \<open>At a configuration with a default, an example and both length bounds: the
  result is that of the configuration without them.\<close>

theorem DateTime_honours_only_common_witness:
  "Types_DateTime (Some (empty_config\<lparr>description := Some ''created'', required := Some True,
        default := Some (JSString ''2020-01-01''), example := Some (JSString ''2021-02-03''),
        minLength := Some (Finite 5), maxLength := Some (Finite 7)\<rparr>))
   = Types_DateTime (Some ((empty_config :: unit parameters)
        \<lparr>description := Some ''created'', required := Some True\<rparr>))"
proof -
  let ?p = "empty_config\<lparr>description := Some ''created'', required := Some True,
        default := Some (JSString ''2020-01-01''), example := Some (JSString ''2021-02-03''),
        minLength := Some (Finite 5), maxLength := Some (Finite 7)\<rparr> :: unit parameters"
  let ?q = "(empty_config :: unit parameters)\<lparr>description := Some ''created'',
        required := Some True\<rparr>"
  have "description ?p = description ?q \<and> required ?p = required ?q
        \<and> nullable ?p = nullable ?q"
    by simp
  with DateTime_honours_only_common [where p = ?p and q = ?q] show ?thesis
    by blast
qed




text \<open>
  Claim C5 as stated ("Object fails when \<^verbatim>\<open>properties\<close> is absent; no other input
  configuration causes any factory function to fail") does not hold:
  \<^verbatim>\<open>Types.String({minLength: -1})\<close> has no mandatory field missing and throws, because the
  truthy \<^verbatim>\<open>-1\<close> is handed to \<^verbatim>\<open>min\<close>, which takes only non-negative integers; and
  \<^verbatim>\<open>Types.Object({})\<close> returns a node, because \<^verbatim>\<open>keys(undefined)\<close> leaves every key
  allowed.
\<close>

theorem only_missing_mandatory_fields_fail_counterexample:
  "Types_String (Some ((empty_config :: unit parameters)\<lparr>minLength := Some (Finite (- 1))\<rparr>)) = None
   \<and> Types_Object (Some (empty_config :: unit parameters)) \<noteq> None"
  by (simp add: String_closed Object_closed length_rejected_def limit_def compiled_properties_def)

text \<open>
  Claim C5, as amended. StringEnum, NumberEnum and IntegerEnum throw when \<^verbatim>\<open>values\<close> is
  absent (or the configuration itself), Array throws when \<^verbatim>\<open>arrayType\<close> is absent, and
  Object and Array throw when called with no configuration; Object with a configuration
  that has no \<^verbatim>\<open>properties\<close> returns a node. Missing mandatory fields are not the only
  failures: a factory throws as well when the builder rejects an argument it is handed.
  Each factory returns a node exactly under the condition stated for it below: the truthy
  \<^verbatim>\<open>minLength\<close> and \<^verbatim>\<open>maxLength\<close> are non-negative safe integers (text, binary and
  array shapes), \<^verbatim>\<open>minValue\<close> and \<^verbatim>\<open>maxValue\<close> are not \<^verbatim>\<open>NaN\<close> (numeric shapes), no
  enumeration value is \<^verbatim>\<open>undefined\<close> or an array, every property value of an object and the
  element type of an array compile. DateTime, Date and Boolean never throw.
\<close>

theorem failure_conditions:
  "(spread_values ps = None \<longrightarrow>
      Types_StringEnum ps = None \<and> Types_NumberEnum ps = None \<and> Types_IntegerEnum ps = None)
   \<and> ((case ps of None \<Rightarrow> True | Some p \<Rightarrow> arrayType p = None) \<longrightarrow> Types_Array ps = None)
   \<and> (ps = None \<longrightarrow> Types_Object ps = None)
   \<and> (\<forall>p. ps = Some p \<and> properties p = None \<longrightarrow> Types_Object ps \<noteq> None)
   \<and> (\<exists>n. Types_String ps = Some n) = lengths_accepted ps
   \<and> (\<exists>n. Types_Email ps = Some n) = lengths_accepted ps
   \<and> (\<exists>n. Types_Password ps = Some n) = lengths_accepted ps
   \<and> (\<exists>n. Types_Uuid ps = Some n) = lengths_accepted ps
   \<and> (\<exists>n. Types_Uri ps = Some n) = lengths_accepted ps
   \<and> (\<exists>n. Types_Hostname ps = Some n) = lengths_accepted ps
   \<and> (\<exists>n. Types_Ipv4 ps = Some n) = lengths_accepted ps
   \<and> (\<exists>n. Types_Ipv6 ps = Some n) = lengths_accepted ps
   \<and> (\<exists>n. Types_Binary ps = Some n) = lengths_accepted ps
   \<and> (\<exists>n. Types_Byte ps = Some n) = lengths_accepted ps
   \<and> (\<exists>n. Types_StringEnum ps = Some n) = (lengths_accepted ps \<and> values_accepted ps)
   \<and> (\<exists>n. Types_DateTime ps = Some n)
   \<and> (\<exists>n. Types_Date ps = Some n)
   \<and> (\<exists>n. Types_Boolean ps = Some n)
   \<and> (\<exists>n. Types_Number ps = Some n) = bounds_accepted ps
   \<and> (\<exists>n. Types_Integer ps = Some n) = bounds_accepted ps
   \<and> (\<exists>n. Types_NumberEnum ps = Some n) = (bounds_accepted ps \<and> values_accepted ps)
   \<and> (\<exists>n. Types_IntegerEnum ps = Some n) = (bounds_accepted ps \<and> values_accepted ps)
   \<and> (\<exists>n. Types_Object ps = Some n) = properties_accepted ps
   \<and> (\<exists>n. Types_Array ps = Some n) = (element_accepted ps \<and> lengths_accepted ps)"
proof -
  note S = String_Some_iff [of ps] and B = Binary_Some_iff [of ps] and N = Number_Some_iff [of ps]
  have I: "(\<exists>n. Types_Integer ps = Some n) = bounds_accepted ps"
    using N by (simp add: Integer_rel map_option_Some_iff)
  have strs: "(\<exists>n. Types_Email ps = Some n) = lengths_accepted ps"
    "(\<exists>n. Types_Password ps = Some n) = lengths_accepted ps"
    "(\<exists>n. Types_Uuid ps = Some n) = lengths_accepted ps"
    "(\<exists>n. Types_Uri ps = Some n) = lengths_accepted ps"
    "(\<exists>n. Types_Hostname ps = Some n) = lengths_accepted ps"
    "(\<exists>n. Types_Ipv4 ps = Some n) = lengths_accepted ps"
    "(\<exists>n. Types_Ipv6 ps = Some n) = lengths_accepted ps"
    using S
    by (simp_all add: Email_rel Password_rel Uuid_rel Uri_rel Hostname_rel Ipv4_rel Ipv6_rel
        map_option_Some_iff)
  have byte: "(\<exists>n. Types_Byte ps = Some n) = lengths_accepted ps"
    using B by (simp add: Byte_rel map_option_Some_iff)
  have enums: "(\<exists>n. Types_StringEnum ps = Some n) = (lengths_accepted ps \<and> values_accepted ps)"
    "(\<exists>n. Types_NumberEnum ps = Some n) = (bounds_accepted ps \<and> values_accepted ps)"
    "(\<exists>n. Types_IntegerEnum ps = Some n) = (bounds_accepted ps \<and> values_accepted ps)"
    using S N I
    by (simp_all add: StringEnum_rel NumberEnum_rel IntegerEnum_rel enum_of_Some_iff)
  have total: "\<exists>n. Types_DateTime ps = Some n" "\<exists>n. Types_Date ps = Some n"
    "\<exists>n. Types_Boolean ps = Some n"
    by (cases ps; simp add: DateTime_closed DateTime_None Date_rel Boolean_closed Boolean_None)+
  have obj: "(\<exists>n. Types_Object ps = Some n) = properties_accepted ps"
    by (cases ps) (auto simp add: Object_closed Object_None properties_accepted_def)
  have arr: "(\<exists>n. Types_Array ps = Some n) = (element_accepted ps \<and> lengths_accepted ps)"
    by (cases ps)
       (auto simp add: Array_closed Array_None element_accepted_def lengths_accepted_def
          split: option.split)
  have missing_values: "spread_values ps = None \<longrightarrow>
      Types_StringEnum ps = None \<and> Types_NumberEnum ps = None \<and> Types_IntegerEnum ps = None"
    by (simp add: StringEnum_rel NumberEnum_rel IntegerEnum_rel enum_of_def)
  have missing_element:
    "(case ps of None \<Rightarrow> True | Some p \<Rightarrow> arrayType p = None) \<longrightarrow> Types_Array ps = None"
    by (cases ps) (simp_all add: Array_closed Array_None compiled_element_def)
  have missing_config: "ps = None \<longrightarrow> Types_Object ps = None"
    by (simp add: Object_None)
  have missing_properties: "\<forall>p. ps = Some p \<and> properties p = None \<longrightarrow> Types_Object ps \<noteq> None"
    by (simp add: Object_closed compiled_properties_def)
  from S B N I strs byte enums total obj arr missing_values missing_element missing_config
    missing_properties
  show ?thesis
    by simp
qed

text \<open>At \<^verbatim>\<open>Array()\<close>, \<^verbatim>\<open>IntegerEnum({})\<close>, \<^verbatim>\<open>Array({})\<close>,
  \<^verbatim>\<open>Binary({maxLength: 1.5})\<close>, \<^verbatim>\<open>Number({minValue: NaN})\<close> and
  \<^verbatim>\<open>Object({properties: {a: undefined}})\<close>, which throw, and at an array configuration with
  an element type and \<^verbatim>\<open>Object({})\<close>, which return a node.\<close>

theorem failure_conditions_witness:
  "Types_Array (None :: unit parameters option) = None
   \<and> Types_IntegerEnum (Some (empty_config :: unit parameters)) = None
   \<and> Types_Array (Some (empty_config :: unit parameters)) = None
   \<and> Types_Binary (Some ((empty_config :: unit parameters)\<lparr>maxLength := Some (Finite (3/2))\<rparr>)) = None
   \<and> Types_Number (Some ((empty_config :: unit parameters)\<lparr>minValue := Some NaN\<rparr>)) = None
   \<and> Types_Object (Some ((empty_config :: unit parameters)\<lparr>properties := Some [(''a'', Refused)]\<rparr>))
       = None
   \<and> Types_Array (Some ((empty_config :: unit parameters)\<lparr>arrayType := Some (Compiles ())\<rparr>)) \<noteq> None
   \<and> Types_Object (Some (empty_config :: unit parameters)) \<noteq> None"
proof -
  have a: "spread_values (Some (empty_config :: unit parameters)) = None"
    "arrayType (empty_config :: unit parameters) = None"
    "properties (empty_config :: unit parameters) = None"
    "\<not> lengths_accepted (Some ((empty_config :: unit parameters)\<lparr>maxLength := Some (Finite (3/2))\<rparr>))"
    "\<not> bounds_accepted (Some ((empty_config :: unit parameters)\<lparr>minValue := Some NaN\<rparr>))"
    "\<not> properties_accepted
         (Some ((empty_config :: unit parameters)\<lparr>properties := Some [(''a'', Refused)]\<rparr>))"
    "element_accepted (Some ((empty_config :: unit parameters)\<lparr>arrayType := Some (Compiles ())\<rparr>))"
    "lengths_accepted (Some ((empty_config :: unit parameters)\<lparr>arrayType := Some (Compiles ())\<rparr>))"
    by (simp_all add: spread_values_def lengths_accepted_def properties_accepted_def
        compiled_properties_def element_accepted_def compiled_element_def
        length_rejected_def bounds_accepted_def value_rejected_def limit_def)
  note n = failure_conditions [of "None :: unit parameters option"]
    and e = failure_conditions [of "Some (empty_config :: unit parameters)"]
    and b = failure_conditions
      [of "Some ((empty_config :: unit parameters)\<lparr>maxLength := Some (Finite (3/2))\<rparr>)"]
    and v = failure_conditions
      [of "Some ((empty_config :: unit parameters)\<lparr>minValue := Some NaN\<rparr>)"]
    and r = failure_conditions
      [of "Some ((empty_config :: unit parameters)\<lparr>properties := Some [(''a'', Refused)]\<rparr>)"]
    and t = failure_conditions
      [of "Some ((empty_config :: unit parameters)\<lparr>arrayType := Some (Compiles ())\<rparr>)"]
  from n have 1: "Types_Array (None :: unit parameters option) = None"
    by simp
  from e a(1) have 2: "Types_IntegerEnum (Some (empty_config :: unit parameters)) = None"
    by blast
  from e a(2) have 3: "Types_Array (Some (empty_config :: unit parameters)) = None"
    by simp
  from b a(4) have 4: "Types_Binary
      (Some ((empty_config :: unit parameters)\<lparr>maxLength := Some (Finite (3/2))\<rparr>)) = None"
    by (metis option.exhaust)
  from v a(5) have 5: "Types_Number
      (Some ((empty_config :: unit parameters)\<lparr>minValue := Some NaN\<rparr>)) = None"
    by (metis option.exhaust)
  from r a(6) have 6: "Types_Object
      (Some ((empty_config :: unit parameters)\<lparr>properties := Some [(''a'', Refused)]\<rparr>)) = None"
    by (metis option.exhaust)
  from t a(7,8) have 7: "Types_Array
      (Some ((empty_config :: unit parameters)\<lparr>arrayType := Some (Compiles ())\<rparr>)) \<noteq> None"
    by (metis option.distinct(1))
  from e a(3) have 8: "Types_Object (Some (empty_config :: unit parameters)) \<noteq> None"
    by blast
  from 1 2 3 4 5 6 7 8 show ?thesis by blast
qed

text \<open>
  Claim C6 as stated ("calling any factory with no configuration at all produces a node")
  does not hold for the five factories whose configuration is mandatory:
  \<^verbatim>\<open>Types.Object()\<close> and \<^verbatim>\<open>Types.Array()\<close> destructure \<^verbatim>\<open>undefined\<close>, and
  \<^verbatim>\<open>Types.StringEnum()\<close> reads \<^verbatim>\<open>parameters.values\<close> of \<^verbatim>\<open>undefined\<close>; each throws a
  TypeError.
\<close>

theorem bare_node_without_configuration_counterexample:
  "Types_Object (None :: unit parameters option) = None
   \<and> Types_Array (None :: unit parameters option) = None
   \<and> Types_StringEnum (None :: unit parameters option) = None"
  by (simp add: Types_Object_def Types_Array_def Types_StringEnum_def spread_values_def
      Types_String_def)

text \<open>
  Claim C6, as amended. For every factory and every configuration, a field that is absent leaves no
  corresponding entry on the node returned: no description, presence flag, default or
  example; no null among the allowed values; no length bound (for the shapes whose bounds
  come from \<^verbatim>\<open>minLength\<close> and \<^verbatim>\<open>maxLength\<close> only) and no value bound (numeric shapes); no
  restriction of the keys of an object. In particular each of the fifteen factories whose
  configuration is optional, called with no configuration at all (or with the empty one),
  returns the bare node of its kind with only the intrinsic constraints of the shape, which
  are listed. The five factories with a mandatory configuration (StringEnum, NumberEnum,
  IntegerEnum, Object, Array) throw when called without one.
\<close>

theorem absent_fields_leave_no_entry:
  "list_all absent_common
     [Types_String, Types_StringEnum, Types_Email, Types_Password, Types_Uuid, Types_Uri,
      Types_Hostname, Types_Ipv4, Types_Ipv6, Types_Binary, Types_Byte, Types_DateTime,
      Types_Date, Types_Number, Types_NumberEnum, Types_Integer, Types_IntegerEnum,
      Types_Boolean, Types_Object, Types_Array]
   \<and> list_all absent_nullable
     [Types_String, Types_Email, Types_Password, Types_Uuid, Types_Uri, Types_Hostname,
      Types_Ipv4, Types_Ipv6, Types_Binary, Types_Byte, Types_DateTime, Types_Date,
      Types_Number, Types_Integer, Types_Boolean, Types_Object, Types_Array]
   \<and> list_all absent_nullable_enum [Types_StringEnum, Types_NumberEnum, Types_IntegerEnum]
   \<and> list_all absent_lengths
     [Types_String, Types_StringEnum, Types_Email, Types_Password, Types_Uri, Types_Hostname,
      Types_Binary, Types_Byte, Types_Array]
   \<and> list_all absent_values
     [Types_Number, Types_NumberEnum, Types_Integer, Types_IntegerEnum]
   \<and> absent_properties Types_Object
   \<and> bare Types_String Joi_string
   \<and> bare Types_Email (Joi_string\<lparr>rules := [Rule_email]\<rparr>)
   \<and> bare Types_Password (Joi_string\<lparr>metas := [(''format'', ''password'')]\<rparr>)
   \<and> bare Types_Uuid
        (Joi_string\<lparr>rules := [Rule_guid ''uuidv4'', Rule_min (Finite 36), Rule_max (Finite 36)],
                    metas := [(''format'', ''uuid'')]\<rparr>)
   \<and> bare Types_Uri (Joi_string\<lparr>rules := [Rule_uri], metas := [(''format'', ''uri'')]\<rparr>)
   \<and> bare Types_Hostname
        (Joi_string\<lparr>rules := [Rule_hostname], metas := [(''format'', ''hostname'')]\<rparr>)
   \<and> bare Types_Ipv4
        (Joi_string\<lparr>rules := [Rule_ip [''ipv4''], Rule_min (Finite 7), Rule_max (Finite 15)],
                    metas := [(''format'', ''ipv4'')]\<rparr>)
   \<and> bare Types_Ipv6
        (Joi_string\<lparr>rules := [Rule_ip [''ipv6''], Rule_min (Finite 3), Rule_max (Finite 45)],
                    metas := [(''format'', ''ipv6'')]\<rparr>)
   \<and> bare Types_Binary Joi_binary
   \<and> bare Types_Byte (Joi_binary\<lparr>flag_encoding := Some ''base64''\<rparr>)
   \<and> bare Types_DateTime (Joi_string\<lparr>rules := [Rule_isoDate, Rule_max (Finite 24)]\<rparr>)
   \<and> bare Types_Date
        (Joi_string\<lparr>rules := [Rule_isoDate, Rule_min (Finite 10), Rule_max (Finite 10)],
                    metas := [(''format'', ''date'')]\<rparr>)
   \<and> bare Types_Number Joi_number
   \<and> bare Types_Integer (Joi_number\<lparr>rules := [Rule_integer]\<rparr>)
   \<and> bare Types_Boolean (Joi_boolean\<lparr>strict := True\<rparr>)
   \<and> Types_StringEnum None = None \<and> Types_NumberEnum None = None
   \<and> Types_IntegerEnum None = None \<and> Types_Object None = None \<and> Types_Array None = None"
proof -
  note cb = absent_common_base and nb = absent_nullable_base and lb = absent_lengths_base
    and vb = absent_values_base
  have common: "list_all absent_common
     [Types_String, Types_StringEnum, Types_Email, Types_Password, Types_Uuid, Types_Uri,
      Types_Hostname, Types_Ipv4, Types_Ipv6, Types_Binary, Types_Byte, Types_DateTime,
      Types_Date, Types_Number, Types_NumberEnum, Types_Integer, Types_IntegerEnum,
      Types_Boolean, Types_Object, Types_Array]"
  proof -
    have i: "absent_common Types_Integer"
      by (rule absent_common_map [OF cb(4) Integer_rel]) simp
    have "absent_common Types_StringEnum" by (rule absent_common_enum [OF cb(1) StringEnum_rel])
    moreover have "absent_common Types_Email" by (rule absent_common_map [OF cb(1) Email_rel]) simp
    moreover have "absent_common Types_Password"
      by (rule absent_common_map [OF cb(1) Password_rel]) simp
    moreover have "absent_common Types_Uuid" by (rule absent_common_map [OF cb(1) Uuid_rel]) simp
    moreover have "absent_common Types_Uri" by (rule absent_common_map [OF cb(1) Uri_rel]) simp
    moreover have "absent_common Types_Hostname"
      by (rule absent_common_map [OF cb(1) Hostname_rel]) simp
    moreover have "absent_common Types_Ipv4" by (rule absent_common_map [OF cb(1) Ipv4_rel]) simp
    moreover have "absent_common Types_Ipv6" by (rule absent_common_map [OF cb(1) Ipv6_rel]) simp
    moreover have "absent_common Types_Byte" by (rule absent_common_map [OF cb(2) Byte_rel]) simp
    moreover have "absent_common Types_Date" by (rule absent_common_map [OF cb(3) Date_rel]) simp
    moreover have "absent_common Types_NumberEnum"
      by (rule absent_common_enum [OF cb(4) NumberEnum_rel])
    moreover have "absent_common Types_IntegerEnum"
      by (rule absent_common_enum [OF i IntegerEnum_rel])
    ultimately show ?thesis using cb i by simp
  qed
  have i: "absent_nullable Types_Integer"
    by (rule absent_nullable_map [OF nb(4) Integer_rel]) simp
  have nullable: "list_all absent_nullable
     [Types_String, Types_Email, Types_Password, Types_Uuid, Types_Uri, Types_Hostname,
      Types_Ipv4, Types_Ipv6, Types_Binary, Types_Byte, Types_DateTime, Types_Date,
      Types_Number, Types_Integer, Types_Boolean, Types_Object, Types_Array]"
  proof -
    have "absent_nullable Types_Email" by (rule absent_nullable_map [OF nb(1) Email_rel]) simp
    moreover have "absent_nullable Types_Password"
      by (rule absent_nullable_map [OF nb(1) Password_rel]) simp
    moreover have "absent_nullable Types_Uuid" by (rule absent_nullable_map [OF nb(1) Uuid_rel]) simp
    moreover have "absent_nullable Types_Uri" by (rule absent_nullable_map [OF nb(1) Uri_rel]) simp
    moreover have "absent_nullable Types_Hostname"
      by (rule absent_nullable_map [OF nb(1) Hostname_rel]) simp
    moreover have "absent_nullable Types_Ipv4" by (rule absent_nullable_map [OF nb(1) Ipv4_rel]) simp
    moreover have "absent_nullable Types_Ipv6" by (rule absent_nullable_map [OF nb(1) Ipv6_rel]) simp
    moreover have "absent_nullable Types_Byte" by (rule absent_nullable_map [OF nb(2) Byte_rel]) simp
    moreover have "absent_nullable Types_Date" by (rule absent_nullable_map [OF nb(3) Date_rel]) simp
    ultimately show ?thesis using nb i by simp
  qed
  have nullable_enum:
    "list_all absent_nullable_enum [Types_StringEnum, Types_NumberEnum, Types_IntegerEnum]"
    using absent_nullable_enum_lift [OF nb(1) StringEnum_rel]
      absent_nullable_enum_lift [OF nb(4) NumberEnum_rel]
      absent_nullable_enum_lift [OF i IntegerEnum_rel]
    by simp
  have lengths: "list_all absent_lengths
     [Types_String, Types_StringEnum, Types_Email, Types_Password, Types_Uri, Types_Hostname,
      Types_Binary, Types_Byte, Types_Array]"
  proof -
    have "absent_lengths Types_StringEnum" by (rule absent_lengths_enum [OF lb(1) StringEnum_rel])
    moreover have "absent_lengths Types_Email"
      by (rule absent_lengths_map [OF lb(1) Email_rel])
         (simp add: min_limits_def max_limits_def map_filter_snoc)
    moreover have "absent_lengths Types_Password"
      by (rule absent_lengths_map [OF lb(1) Password_rel]) simp
    moreover have "absent_lengths Types_Uri"
      by (rule absent_lengths_map [OF lb(1) Uri_rel])
         (simp add: min_limits_def max_limits_def map_filter_snoc)
    moreover have "absent_lengths Types_Hostname"
      by (rule absent_lengths_map [OF lb(1) Hostname_rel])
         (simp add: min_limits_def max_limits_def map_filter_snoc)
    moreover have "absent_lengths Types_Byte" by (rule absent_lengths_map [OF lb(2) Byte_rel]) simp
    ultimately show ?thesis using lb by simp
  qed
  have vals: "list_all absent_values
     [Types_Number, Types_NumberEnum, Types_Integer, Types_IntegerEnum]"
  proof -
    have vi: "absent_values Types_Integer"
      by (rule absent_values_map [OF vb Integer_rel])
         (simp add: min_limits_def max_limits_def map_filter_snoc)
    have "absent_values Types_NumberEnum" by (rule absent_values_enum [OF vb NumberEnum_rel])
    moreover have "absent_values Types_IntegerEnum"
      by (rule absent_values_enum [OF vi IntegerEnum_rel])
    ultimately show ?thesis using vb vi by simp
  qed
  have props: "absent_properties Types_Object"
    by (auto simp add: absent_properties_def Object_closed)
  have bares:
    "bare Types_Email (Joi_string\<lparr>rules := [Rule_email]\<rparr>)"
    "bare Types_Password (Joi_string\<lparr>metas := [(''format'', ''password'')]\<rparr>)"
    "bare Types_Uuid
        (Joi_string\<lparr>rules := [Rule_guid ''uuidv4'', Rule_min (Finite 36), Rule_max (Finite 36)],
                    metas := [(''format'', ''uuid'')]\<rparr>)"
    "bare Types_Uri (Joi_string\<lparr>rules := [Rule_uri], metas := [(''format'', ''uri'')]\<rparr>)"
    "bare Types_Hostname
        (Joi_string\<lparr>rules := [Rule_hostname], metas := [(''format'', ''hostname'')]\<rparr>)"
    "bare Types_Ipv4
        (Joi_string\<lparr>rules := [Rule_ip [''ipv4''], Rule_min (Finite 7), Rule_max (Finite 15)],
                    metas := [(''format'', ''ipv4'')]\<rparr>)"
    "bare Types_Ipv6
        (Joi_string\<lparr>rules := [Rule_ip [''ipv6''], Rule_min (Finite 3), Rule_max (Finite 45)],
                    metas := [(''format'', ''ipv6'')]\<rparr>)"
    "bare Types_Byte (Joi_binary\<lparr>flag_encoding := Some ''base64''\<rparr>)"
    "bare Types_Date
        (Joi_string\<lparr>rules := [Rule_isoDate, Rule_min (Finite 10), Rule_max (Finite 10)],
                    metas := [(''format'', ''date'')]\<rparr>)"
    "bare Types_Integer (Joi_number\<lparr>rules := [Rule_integer]\<rparr>)"
    using bare_map [OF bare_base(1) Email_rel] bare_map [OF bare_base(1) Password_rel]
      bare_map [OF bare_base(1) Uuid_rel] bare_map [OF bare_base(1) Uri_rel]
      bare_map [OF bare_base(1) Hostname_rel] bare_map [OF bare_base(1) Ipv4_rel]
      bare_map [OF bare_base(1) Ipv6_rel] bare_map [OF bare_base(2) Byte_rel]
      bare_map [OF bare_base(4) Date_rel] bare_map [OF bare_base(3) Integer_rel]
    by (simp_all add: Joi_string_def Joi_binary_def Joi_number_def Joi_any_def)
  from common nullable nullable_enum lengths vals props bare_base bares
    mandatory_config Object_None Array_None
  show ?thesis
    by blast
qed

text \<open>At \<^verbatim>\<open>Email({maxLength: 5})\<close>, where every other field is absent, and at
  \<^verbatim>\<open>Boolean()\<close>.\<close>

theorem absent_fields_leave_no_entry_witness:
  "flag_description (the (Types_Email (Some ((empty_config :: unit parameters)\<lparr>maxLength := Some (Finite 5)\<rparr>)))) = None
   \<and> flag_presence (the (Types_Email (Some ((empty_config :: unit parameters)\<lparr>maxLength := Some (Finite 5)\<rparr>)))) = None
   \<and> flag_default (the (Types_Email (Some ((empty_config :: unit parameters)\<lparr>maxLength := Some (Finite 5)\<rparr>)))) = None
   \<and> examples (the (Types_Email (Some ((empty_config :: unit parameters)\<lparr>maxLength := Some (Finite 5)\<rparr>)))) = []
   \<and> valids (the (Types_Email (Some ((empty_config :: unit parameters)\<lparr>maxLength := Some (Finite 5)\<rparr>)))) = []
   \<and> min_limits (the (Types_Email (Some ((empty_config :: unit parameters)\<lparr>maxLength := Some (Finite 5)\<rparr>)))) = []
   \<and> Types_Boolean None = Some ((Joi_boolean :: unit node)\<lparr>strict := True\<rparr>)"
proof -
  let ?p = "(empty_config :: unit parameters)\<lparr>maxLength := Some (Finite 5)\<rparr>"
  have some: "Types_Email (Some ?p) = Some (the (Types_Email (Some ?p)))"
    by (simp add: Email_rel String_closed length_rejected_def limit_def)
  have absent: "description ?p = None" "required ?p = None" "default ?p = None"
    "example ?p = None" "nullable ?p = None" "minLength ?p = None"
    by simp_all
  from absent_fields_leave_no_entry [where ?'a = unit, unfolded list.pred_inject]
  have e: "absent_common (Types_Email :: unit parameters option \<Rightarrow> _)"
    "absent_nullable (Types_Email :: unit parameters option \<Rightarrow> _)"
    "absent_lengths (Types_Email :: unit parameters option \<Rightarrow> _)"
    and b: "bare Types_Boolean ((Joi_boolean :: unit node)\<lparr>strict := True\<rparr>)"
    by blast+
  from e(1) some absent have "flag_description (the (Types_Email (Some ?p))) = None"
    "flag_presence (the (Types_Email (Some ?p))) = None"
    "flag_default (the (Types_Email (Some ?p))) = None"
    "examples (the (Types_Email (Some ?p))) = []"
    unfolding absent_common_def by blast+
  moreover from e(2) some absent have "valids (the (Types_Email (Some ?p))) = []"
    unfolding absent_nullable_def by blast
  moreover from e(3) some absent have "min_limits (the (Types_Email (Some ?p))) = []"
    unfolding absent_lengths_def by blast
  moreover from b have "Types_Boolean None = Some ((Joi_boolean :: unit node)\<lparr>strict := True\<rparr>)"
    by (simp add: bare_def)
  ultimately show ?thesis by blast
qed

text \<open>
  Claim C8. For \<^verbatim>\<open>Types.Number\<close> and \<^verbatim>\<open>Types.Integer\<close> the guard of a bound is
  \<^verbatim>\<open>typeof minValue === "number"\<close>: the node carries a lower bound exactly when
  \<^verbatim>\<open>minValue\<close> is present, and then that very value (0 and negative values included), and
  likewise for \<^verbatim>\<open>maxValue\<close>. The only number the builder does not take as a bound is
  \<^verbatim>\<open>NaN\<close>, for which no node is returned.
\<close>

theorem numeric_bounds_by_type:
  "(\<forall>n. Types_Number (Some p) = Some n \<longrightarrow>
        min_limits n = list_of (minValue p) \<and> max_limits n = list_of (maxValue p))
   \<and> (\<forall>n. Types_Integer (Some p) = Some n \<longrightarrow>
        min_limits n = list_of (minValue p) \<and> max_limits n = list_of (maxValue p))
   \<and> (Types_Number (Some p) = None) = (minValue p = Some NaN \<or> maxValue p = Some NaN)
   \<and> (Types_Integer (Some p) = None) = (minValue p = Some NaN \<or> maxValue p = Some NaN)"
proof -
  have "min_limits n = list_of (minValue p) \<and> max_limits n = list_of (maxValue p)"
    if "Types_Integer (Some p) = Some n" for n
    using that Number_limits [of p]
    by (auto simp add: Integer_rel min_limits_def max_limits_def map_filter_snoc)
  moreover have "(Types_Integer (Some p) = None) = (minValue p = Some NaN \<or> maxValue p = Some NaN)"
    by (simp add: Integer_rel Number_None_iff value_rejected_def)
  ultimately show ?thesis
    using Number_limits [of p] Number_None_iff [of p] by (simp add: value_rejected_def)
qed

text \<open>At \<^verbatim>\<open>Number({minValue: 0, maxValue: -5})\<close> and \<^verbatim>\<open>Integer({maxValue: 0})\<close>.\<close>

theorem numeric_bounds_by_type_witness:
  "min_limits (the (Types_Number (Some ((empty_config :: unit parameters)
       \<lparr>minValue := Some (Finite 0), maxValue := Some (Finite (- 5))\<rparr>)))) = [Finite 0]
   \<and> max_limits (the (Types_Number (Some ((empty_config :: unit parameters)
       \<lparr>minValue := Some (Finite 0), maxValue := Some (Finite (- 5))\<rparr>)))) = [Finite (- 5)]
   \<and> min_limits (the (Types_Integer (Some ((empty_config :: unit parameters)
       \<lparr>maxValue := Some (Finite 0)\<rparr>)))) = []
   \<and> max_limits (the (Types_Integer (Some ((empty_config :: unit parameters)
       \<lparr>maxValue := Some (Finite 0)\<rparr>)))) = [Finite 0]"
proof -
  let ?p = "(empty_config :: unit parameters)
       \<lparr>minValue := Some (Finite 0), maxValue := Some (Finite (- 5))\<rparr>"
  let ?q = "(empty_config :: unit parameters)\<lparr>maxValue := Some (Finite 0)\<rparr>"
  have f: "minValue ?p = Some (Finite 0)" "maxValue ?p = Some (Finite (- 5))"
    "minValue ?q = None" "maxValue ?q = Some (Finite 0)"
    by (simp_all add: empty_config_def)
  from numeric_bounds_by_type [of ?p] f(1,2)
  have "Types_Number (Some ?p) \<noteq> None" by simp
  with numeric_bounds_by_type [of ?p] f(1,2)
  have n: "min_limits (the (Types_Number (Some ?p))) = [Finite 0]"
    "max_limits (the (Types_Number (Some ?p))) = [Finite (- 5)]"
    by auto
  from numeric_bounds_by_type [of ?q] f(3,4)
  have "Types_Integer (Some ?q) \<noteq> None" by simp
  with numeric_bounds_by_type [of ?q] f(3,4)
  have i: "min_limits (the (Types_Integer (Some ?q))) = []"
    "max_limits (the (Types_Integer (Some ?q))) = [Finite 0]"
    by auto
  from n i show ?thesis by simp
qed

text \<open>
  Claim C9. For \<^verbatim>\<open>Types.String\<close>, every text shape built on it (StringEnum, Email,
  Password, Uuid, Uri, Hostname, Ipv4, Ipv6) and \<^verbatim>\<open>Types.Binary\<close> (with Byte, built on it):
  \<^verbatim>\<open>minLength: 0\<close>, \<^verbatim>\<open>maxLength: 0\<close>, an empty-string description and an empty-string
  default each give the same result as omitting the field, because the source guards these
  fields by truthiness.
\<close>

theorem falsy_text_fields_as_omitted:
  "falsy_as_omitted Types_String \<and> falsy_as_omitted Types_StringEnum
   \<and> falsy_as_omitted Types_Email \<and> falsy_as_omitted Types_Password
   \<and> falsy_as_omitted Types_Uuid \<and> falsy_as_omitted Types_Uri
   \<and> falsy_as_omitted Types_Hostname \<and> falsy_as_omitted Types_Ipv4
   \<and> falsy_as_omitted Types_Ipv6 \<and> falsy_as_omitted Types_Binary
   \<and> falsy_as_omitted Types_Byte"
proof -
  note S = String_falsy and B = Binary_falsy
  have "falsy_as_omitted Types_StringEnum" by (rule falsy_enum [OF S StringEnum_rel])
  moreover have "falsy_as_omitted Types_Email" by (rule falsy_map [OF S Email_rel])
  moreover have "falsy_as_omitted Types_Password" by (rule falsy_map [OF S Password_rel])
  moreover have "falsy_as_omitted Types_Uuid" by (rule falsy_map [OF S Uuid_rel])
  moreover have "falsy_as_omitted Types_Uri" by (rule falsy_map [OF S Uri_rel])
  moreover have "falsy_as_omitted Types_Hostname" by (rule falsy_map [OF S Hostname_rel])
  moreover have "falsy_as_omitted Types_Ipv4" by (rule falsy_map [OF S Ipv4_rel])
  moreover have "falsy_as_omitted Types_Ipv6" by (rule falsy_map [OF S Ipv6_rel])
  moreover have "falsy_as_omitted Types_Byte" by (rule falsy_map [OF B Byte_rel])
  ultimately show ?thesis using S B by simp
qed

text \<open>At the empty configuration: \<^verbatim>\<open>String({minLength: 0})\<close> and
  \<^verbatim>\<open>Binary({description: ""})\<close> are the bare nodes, and \<^verbatim>\<open>Email({default: ""})\<close> is
  \<^verbatim>\<open>Email({})\<close>.\<close>

theorem falsy_text_fields_witness:
  "Types_String (Some (empty_config\<lparr>minLength := Some (Finite 0)\<rparr>)) = Some (Joi_string :: unit node)
   \<and> Types_Binary (Some (empty_config\<lparr>description := Some ''''\<rparr>)) = Some (Joi_binary :: unit node)
   \<and> Types_Email (Some (empty_config\<lparr>default := Some (JSString '''')\<rparr>))
       = Types_Email (Some (empty_config :: unit parameters))"
proof -
  have e: "(empty_config :: unit parameters)\<lparr>minLength := None\<rparr> = empty_config"
    "(empty_config :: unit parameters)\<lparr>description := None\<rparr> = empty_config"
    "(empty_config :: unit parameters)\<lparr>default := None\<rparr> = empty_config"
    by (simp_all add: empty_config_def)
  have n: "Types_String (Some (empty_config :: unit parameters)) = Some Joi_string"
    "Types_Binary (Some (empty_config :: unit parameters)) = Some Joi_binary"
    by (simp_all add: String_closed Binary_closed empty_config_def applied_def rejected_def
        null_if_def Joi_string_def Joi_binary_def Joi_any_def)
  from falsy_text_fields_as_omitted [where ?'a = unit] show ?thesis
    unfolding falsy_as_omitted_def using e n by metis
qed

text \<open>
  Claim C10. \<^verbatim>\<open>Types.Boolean\<close> guards \<^verbatim>\<open>default\<close> and \<^verbatim>\<open>example\<close> by
  \<^verbatim>\<open>typeof ... === "boolean"\<close>, \<^verbatim>\<open>Types.Number\<close> and \<^verbatim>\<open>Types.Integer\<close> by
  \<^verbatim>\<open>typeof ... === "number"\<close>: the node carries the default and the example of the
  configuration exactly when they have that type, whatever their truth value. So a default
  \<^verbatim>\<open>false\<close> and an example \<^verbatim>\<open>false\<close> (for the numeric factories \<^verbatim>\<open>0\<close>) are on the node,
  and the result differs from the one obtained with the field omitted (whether the numeric
  factories return a node does not depend on these two fields). \<^verbatim>\<open>Types.String\<close>,
  \<^verbatim>\<open>Types.Object\<close> and \<^verbatim>\<open>Types.Array\<close> guard by truthiness: the node carries the default
  and the example exactly when they are truthy, and a falsy default or example gives the
  result of omitting the field.
\<close>

theorem falsy_default_and_example_by_type:
  "(\<exists>n. Types_Boolean (Some p) = Some n
        \<and> flag_default n = applied (\<lambda>v. typeof v = ''boolean'') (default p)
        \<and> examples n = list_of (applied (\<lambda>v. typeof v = ''boolean'') (example p)))
   \<and> (\<forall>n. Types_Number (Some p) = Some n \<longrightarrow>
        flag_default n = applied (\<lambda>v. typeof v = ''number'') (default p)
        \<and> examples n = list_of (applied (\<lambda>v. typeof v = ''number'') (example p)))
   \<and> (\<forall>n. Types_Integer (Some p) = Some n \<longrightarrow>
        flag_default n = applied (\<lambda>v. typeof v = ''number'') (default p)
        \<and> examples n = list_of (applied (\<lambda>v. typeof v = ''number'') (example p)))
   \<and> (\<exists>n. Types_Boolean (Some (p\<lparr>default := Some (JSBoolean False),
                                   example := Some (JSBoolean False)\<rparr>)) = Some n
        \<and> flag_default n = Some (JSBoolean False) \<and> examples n = [JSBoolean False])
   \<and> (\<forall>n. Types_Number (Some (p\<lparr>default := Some (JSNumber (Finite 0)),
                                     example := Some (JSNumber (Finite 0))\<rparr>)) = Some n
        \<longrightarrow> flag_default n = Some (JSNumber (Finite 0)) \<and> examples n = [JSNumber (Finite 0)])
   \<and> (\<forall>n. Types_Integer (Some (p\<lparr>default := Some (JSNumber (Finite 0)),
                                      example := Some (JSNumber (Finite 0))\<rparr>)) = Some n
        \<longrightarrow> flag_default n = Some (JSNumber (Finite 0)) \<and> examples n = [JSNumber (Finite 0)])
   \<and> (Types_Number (Some (p\<lparr>default := d, example := e\<rparr>)) = None)
       = (Types_Number (Some p) = None)
   \<and> (Types_Integer (Some (p\<lparr>default := d, example := e\<rparr>)) = None)
       = (Types_Integer (Some p) = None)
   \<and> Types_Boolean (Some (p\<lparr>default := Some (JSBoolean False)\<rparr>))
       \<noteq> Types_Boolean (Some (p\<lparr>default := None\<rparr>))
   \<and> Types_Boolean (Some (p\<lparr>example := Some (JSBoolean False)\<rparr>))
       \<noteq> Types_Boolean (Some (p\<lparr>example := None\<rparr>))
   \<and> (Types_Number (Some p) \<noteq> None \<longrightarrow>
        Types_Number (Some (p\<lparr>default := Some (JSNumber (Finite 0))\<rparr>))
          \<noteq> Types_Number (Some (p\<lparr>default := None\<rparr>))
        \<and> Types_Number (Some (p\<lparr>example := Some (JSNumber (Finite 0))\<rparr>))
          \<noteq> Types_Number (Some (p\<lparr>example := None\<rparr>))
        \<and> Types_Integer (Some (p\<lparr>default := Some (JSNumber (Finite 0))\<rparr>))
          \<noteq> Types_Integer (Some (p\<lparr>default := None\<rparr>))
        \<and> Types_Integer (Some (p\<lparr>example := Some (JSNumber (Finite 0))\<rparr>))
          \<noteq> Types_Integer (Some (p\<lparr>example := None\<rparr>)))
   \<and> (\<forall>n. Types_String (Some p) = Some n \<or> Types_Object (Some p) = Some n
           \<or> Types_Array (Some p) = Some n \<longrightarrow>
        flag_default n = applied truthy (default p)
        \<and> examples n = list_of (applied truthy (example p)))
   \<and> (\<not> truthy v \<longrightarrow>
        Types_String (Some (p\<lparr>default := Some v\<rparr>)) = Types_String (Some (p\<lparr>default := None\<rparr>))
        \<and> Types_String (Some (p\<lparr>example := Some v\<rparr>)) = Types_String (Some (p\<lparr>example := None\<rparr>))
        \<and> Types_Object (Some (p\<lparr>default := Some v\<rparr>)) = Types_Object (Some (p\<lparr>default := None\<rparr>))
        \<and> Types_Object (Some (p\<lparr>example := Some v\<rparr>)) = Types_Object (Some (p\<lparr>example := None\<rparr>))
        \<and> Types_Array (Some (p\<lparr>default := Some v\<rparr>)) = Types_Array (Some (p\<lparr>default := None\<rparr>))
        \<and> Types_Array (Some (p\<lparr>example := Some v\<rparr>)) = Types_Array (Some (p\<lparr>example := None\<rparr>)))"
proof -
  have bc: "\<exists>n. Types_Boolean (Some p) = Some n
        \<and> flag_default n = applied (\<lambda>v. typeof v = ''boolean'') (default p)
        \<and> examples n = list_of (applied (\<lambda>v. typeof v = ''boolean'') (example p))"
    by (simp add: Boolean_closed)
  have nc: "flag_default n = applied (\<lambda>v. typeof v = ''number'') (default p)
        \<and> examples n = list_of (applied (\<lambda>v. typeof v = ''number'') (example p))"
    if "Types_Number (Some p) = Some n" for n
    using that by (auto simp add: Number_closed split: if_splits)
  have ic: "flag_default n = applied (\<lambda>v. typeof v = ''number'') (default p)
        \<and> examples n = list_of (applied (\<lambda>v. typeof v = ''number'') (example p))"
    if "Types_Integer (Some p) = Some n" for n
    using that by (auto simp add: Integer_rel Number_closed split: if_splits)
  have b: "\<exists>n. Types_Boolean (Some (p\<lparr>default := Some (JSBoolean False),
                                   example := Some (JSBoolean False)\<rparr>)) = Some n
        \<and> flag_default n = Some (JSBoolean False) \<and> examples n = [JSBoolean False]"
    by (simp add: Boolean_closed applied_def)
  have n: "flag_default n = Some (JSNumber (Finite 0)) \<and> examples n = [JSNumber (Finite 0)]"
    if "Types_Number (Some (p\<lparr>default := Some (JSNumber (Finite 0)),
                                     example := Some (JSNumber (Finite 0))\<rparr>)) = Some n" for n
    using that by (auto simp add: Number_closed applied_def split: if_splits)
  have i: "flag_default n = Some (JSNumber (Finite 0)) \<and> examples n = [JSNumber (Finite 0)]"
    if "Types_Integer (Some (p\<lparr>default := Some (JSNumber (Finite 0)),
                                     example := Some (JSNumber (Finite 0))\<rparr>)) = Some n" for n
    using that by (auto simp add: Integer_rel Number_closed applied_def split: if_splits)
  have f: "(Types_Number (Some (p\<lparr>default := d, example := e\<rparr>)) = None)
       = (Types_Number (Some p) = None)"
    "(Types_Integer (Some (p\<lparr>default := d, example := e\<rparr>)) = None)
       = (Types_Integer (Some p) = None)"
    by (simp_all add: Integer_rel Number_closed)
  have bd: "Types_Boolean (Some (p\<lparr>default := Some (JSBoolean False)\<rparr>))
       \<noteq> Types_Boolean (Some (p\<lparr>default := None\<rparr>))"
    "Types_Boolean (Some (p\<lparr>example := Some (JSBoolean False)\<rparr>))
       \<noteq> Types_Boolean (Some (p\<lparr>example := None\<rparr>))"
    by (simp_all add: Boolean_closed applied_def)
  have nd: "Types_Number (Some (p\<lparr>default := Some (JSNumber (Finite 0))\<rparr>))
          \<noteq> Types_Number (Some (p\<lparr>default := None\<rparr>))
        \<and> Types_Number (Some (p\<lparr>example := Some (JSNumber (Finite 0))\<rparr>))
          \<noteq> Types_Number (Some (p\<lparr>example := None\<rparr>))
        \<and> Types_Integer (Some (p\<lparr>default := Some (JSNumber (Finite 0))\<rparr>))
          \<noteq> Types_Integer (Some (p\<lparr>default := None\<rparr>))
        \<and> Types_Integer (Some (p\<lparr>example := Some (JSNumber (Finite 0))\<rparr>))
          \<noteq> Types_Integer (Some (p\<lparr>example := None\<rparr>))"
    if "Types_Number (Some p) \<noteq> None"
    using that by (simp add: Integer_rel Number_closed applied_def split: if_splits)
  have sc: "flag_default n = applied truthy (default p)
        \<and> examples n = list_of (applied truthy (example p))"
    if "Types_String (Some p) = Some n \<or> Types_Object (Some p) = Some n
           \<or> Types_Array (Some p) = Some n" for n
    using that
    by (auto simp add: String_closed Object_closed Array_closed split: if_splits option.splits)
  have s: "Types_String (Some (p\<lparr>default := Some v\<rparr>)) = Types_String (Some (p\<lparr>default := None\<rparr>))
        \<and> Types_String (Some (p\<lparr>example := Some v\<rparr>)) = Types_String (Some (p\<lparr>example := None\<rparr>))
        \<and> Types_Object (Some (p\<lparr>default := Some v\<rparr>)) = Types_Object (Some (p\<lparr>default := None\<rparr>))
        \<and> Types_Object (Some (p\<lparr>example := Some v\<rparr>)) = Types_Object (Some (p\<lparr>example := None\<rparr>))
        \<and> Types_Array (Some (p\<lparr>default := Some v\<rparr>)) = Types_Array (Some (p\<lparr>default := None\<rparr>))
        \<and> Types_Array (Some (p\<lparr>example := Some v\<rparr>)) = Types_Array (Some (p\<lparr>example := None\<rparr>))"
    if "\<not> truthy v"
    using that
    by (simp add: String_closed Object_closed Array_closed falsy_dropped compiled_properties_def
        compiled_element_def split: option.split)
  from bc nc ic b n i f bd nd sc s show ?thesis by blast
qed

text \<open>At \<^verbatim>\<open>Boolean({default: false, example: false})\<close>, which is not \<^verbatim>\<open>Boolean({})\<close>, at
  \<^verbatim>\<open>Number({default: 0, example: 0})\<close>, \<^verbatim>\<open>String({example: ""})\<close> and
  \<^verbatim>\<open>Object({default: null})\<close>.\<close>

theorem falsy_default_and_example_by_type_witness:
  "flag_default (the (Types_Boolean (Some ((empty_config :: unit parameters)
       \<lparr>default := Some (JSBoolean False), example := Some (JSBoolean False)\<rparr>))))
     = Some (JSBoolean False)
   \<and> examples (the (Types_Boolean (Some ((empty_config :: unit parameters)
       \<lparr>default := Some (JSBoolean False), example := Some (JSBoolean False)\<rparr>))))
     = [JSBoolean False]
   \<and> Types_Boolean (Some ((empty_config :: unit parameters)\<lparr>default := Some (JSBoolean False)\<rparr>))
     \<noteq> Types_Boolean (Some ((empty_config :: unit parameters)\<lparr>default := None\<rparr>))
   \<and> flag_default (the (Types_Number (Some ((empty_config :: unit parameters)
       \<lparr>default := Some (JSNumber (Finite 0)), example := Some (JSNumber (Finite 0))\<rparr>))))
     = Some (JSNumber (Finite 0))
   \<and> examples (the (Types_Number (Some ((empty_config :: unit parameters)
       \<lparr>default := Some (JSNumber (Finite 0)), example := Some (JSNumber (Finite 0))\<rparr>))))
     = [JSNumber (Finite 0)]
   \<and> Types_Number (Some ((empty_config :: unit parameters)\<lparr>default := Some (JSNumber (Finite 0))\<rparr>))
     \<noteq> Types_Number (Some ((empty_config :: unit parameters)\<lparr>default := None\<rparr>))
   \<and> Types_String (Some ((empty_config :: unit parameters)\<lparr>example := Some (JSString [])\<rparr>))
     = Types_String (Some ((empty_config :: unit parameters)\<lparr>example := None\<rparr>))
   \<and> Types_Object (Some ((empty_config :: unit parameters)\<lparr>default := Some JSNull\<rparr>))
     = Types_Object (Some ((empty_config :: unit parameters)\<lparr>default := None\<rparr>))"
proof -
  let ?p = "empty_config :: unit parameters"
  let ?z = "Some (JSNumber (Finite 0))"
  let ?f = "Some (JSBoolean False)"
  let ?q = "?p\<lparr>default := ?z, example := ?z\<rparr>"
  let ?b = "?p\<lparr>default := ?f, example := ?f\<rparr>"
  note t1 = falsy_default_and_example_by_type
    [where p = ?p and d = ?z and e = ?z and v = "JSString []"]
  note t2 = falsy_default_and_example_by_type
    [where p = ?p and d = ?z and e = ?z and v = JSNull]
  from t1 obtain m where m: "Types_Boolean (Some ?b) = Some m"
    "flag_default m = Some (JSBoolean False)" "examples m = [JSBoolean False]"
    by blast
  then have b: "flag_default (the (Types_Boolean (Some ?b))) = Some (JSBoolean False)"
    "examples (the (Types_Boolean (Some ?b))) = [JSBoolean False]"
    by simp_all
  from t1 have bd: "Types_Boolean (Some (?p\<lparr>default := ?f\<rparr>))
     \<noteq> Types_Boolean (Some (?p\<lparr>default := None\<rparr>))"
    by blast
  have some: "Types_Number (Some ?p) \<noteq> None"
    by (simp add: Number_closed)
  with t1 have "Types_Number (Some ?q) \<noteq> None" by blast
  with t1 have n: "flag_default (the (Types_Number (Some ?q))) = Some (JSNumber (Finite 0))"
    "examples (the (Types_Number (Some ?q))) = [JSNumber (Finite 0)]"
    by auto
  from t1 some have nd: "Types_Number (Some (?p\<lparr>default := ?z\<rparr>))
     \<noteq> Types_Number (Some (?p\<lparr>default := None\<rparr>))"
    by blast
  have "\<not> truthy (JSString [])" "\<not> truthy JSNull" by simp_all
  with t1 t2
  have "Types_String (Some (?p\<lparr>example := Some (JSString [])\<rparr>))
     = Types_String (Some (?p\<lparr>example := None\<rparr>))"
    "Types_Object (Some (?p\<lparr>default := Some JSNull\<rparr>))
     = Types_Object (Some (?p\<lparr>default := None\<rparr>))"
    by blast+
  with b bd n nd show ?thesis by blast
qed

end
